theory Spec2Isabelle
  imports Complex_Main "HOL-Library.Word"
begin

section \<open>CircuitSeeker: block partitioning, per-block alignment, stitching and scheduling\<close>

text \<open>
  A shallow embedding of \<^verbatim>\<open>CircuitSeeker/align.py\<close> and of the helpers of
  \<^verbatim>\<open>CircuitSeeker/utility.py\<close> it calls. Python integers are \<open>int\<close> or \<open>nat\<close>,
  numpy's \<^verbatim>\<open>int16\<close> is a 16-bit word read back with \<open>sint\<close>, floating point
  numbers are real numbers (rounding is not modelled), exceptions are the left summand of a
  sum type, and the external libraries (SimpleITK, dask, scipy and the modules
  \<^verbatim>\<open>CircuitSeeker.transform\<close>, \<^verbatim>\<open>CircuitSeeker.quality\<close>) are function
  parameters.
\<close>

subsection \<open>Failures\<close>

text \<open>
  \<open>ValueError\<close>, \<open>TypeError\<close> and \<open>IndexError\<close> are the Python exceptions of the same
  name; \<open>ITKException\<close> is an exception raised inside SimpleITK. \<open>NonFinite\<close> is not
  an exception: it marks a division by zero, where numpy warns and goes on with an infinite
  or undefined float (whose conversion to \<^verbatim>\<open>int16\<close> C leaves undefined); the
  model stops there.
\<close>

datatype failure = ValueError | TypeError | IndexError | ITKException | NonFinite

subsection \<open>Block geometry of \<^verbatim>\<open>distributed_piecewise_affine_align\<close>\<close>

text \<open>\<^verbatim>\<open>ndarray.astype(np.int16)\<close> on an integral value: two's complement wrap-around.\<close>

definition astype_int16 :: "int \<Rightarrow> int" where
  "astype_int16 k = sint (word_of_int k :: 16 word)"

text \<open>
  numpy broadcasting of two one-dimensional operands: equal lengths pair up, an operand of
  length one is repeated, anything else raises \<^verbatim>\<open>ValueError\<close>.
\<close>

definition broadcast_1d :: "'a list \<Rightarrow> 'b list \<Rightarrow> failure + ('a \<times> 'b) list" where
  "broadcast_1d xs ys =
     (if length xs = length ys then Inr (zip xs ys)
      else if length ys = 1 then Inr (map (\<lambda>x. (x, hd ys)) xs)
      else if length xs = 1 then Inr (map (\<lambda>y. (hd xs, y)) ys)
      else Inl ValueError)"

text \<open>
  \<^verbatim>\<open>np.round\<close> rounds to the nearest integer and a tie to the even neighbour.
\<close>

definition np_round :: "real \<Rightarrow> int" where
  "np_round r =
     (let f = \<lfloor>r\<rfloor>; d = r - of_int f
      in if d < 1 / 2 then f else if 1 / 2 < d then f + 1 else if even f then f else f + 1)"

text \<open>
  \<^verbatim>\<open>x % y\<close> with \<open>y\<close> a numpy integer: the sign follows the divisor, as for \<open>mod\<close> on
  \<open>int\<close>, and a zero divisor gives 0 with a warning.
\<close>

definition np_mod :: "int \<Rightarrow> int \<Rightarrow> int" where
  "np_mod x y = (if y = 0 then 0 else x mod y)"

text \<open>
  \<^verbatim>\<open>ndarray.astype(np.float32)\<close> on an array dimension: a float32 has 24 significant
  bits, so a number below \<open>2^24 = 16777216\<close> is kept and a larger one is rounded to the nearest
  number with 24 significant bits, a tie to the one whose last bit is zero. \<open>bit_length\<close>
  is the number of binary digits.
\<close>

fun bit_length :: "nat \<Rightarrow> nat" where
  "bit_length n = (if n = 0 then 0 else Suc (bit_length (n div 2)))"

declare bit_length.simps [simp del]

definition astype_float32 :: "nat \<Rightarrow> real" where
  "astype_float32 x =
     (if int x < 16777216 then real x
      else
        let e = bit_length x - 24;
            q = x div 2 ^ e;
            r = x mod 2 ^ e
        in real ((if 2 * r < 2 ^ e \<or> (2 * r = 2 ^ e \<and> even q) then q else q + 1) * 2 ^ e))"

text \<open>
  \<^verbatim>\<open>blocksize = np.array(fix.shape).astype(np.float32) / nblocks\<close>
  \<^verbatim>\<open>blocksize = np.ceil(blocksize).astype(np.int16)\<close>
  The division by the tuple of Python integers is a float64 division; its quotient is taken
  as the exact quotient, from which it cannot differ across an integer for dimensions below
  \<open>2^53\<close>.
\<close>

definition compute_blocksize :: "nat list \<Rightarrow> int list \<Rightarrow> failure + int list" where
  "compute_blocksize shape nblocks =
     (case broadcast_1d shape nblocks of
        Inl e \<Rightarrow> Inl e
      | Inr ps \<Rightarrow>
          if \<exists>p \<in> set ps. snd p = 0 then Inl NonFinite
          else Inr (map (\<lambda>(x, n). astype_int16 \<lceil>astype_float32 x / real_of_int n\<rceil>) ps))"

text \<open>\<^verbatim>\<open>overlaps = tuple(np.round(blocksize * overlap).astype(np.int16))\<close>\<close>

definition compute_overlaps :: "int list \<Rightarrow> real \<Rightarrow> int list" where
  "compute_overlaps blocksize overlap =
     map (\<lambda>b. astype_int16 (np_round (real_of_int b * overlap))) blocksize"

text \<open>
  \<^verbatim>\<open>pads = [(0, y - x % y) if x % y > 0 else (0, 0) for x, y in zip(fix.shape, blocksize)]\<close>
\<close>

definition pad_axis :: "nat \<Rightarrow> int \<Rightarrow> int \<times> int" where
  "pad_axis x y = (if np_mod (int x) y > 0 then (0, y - np_mod (int x) y) else (0, 0))"

definition compute_pads :: "nat list \<Rightarrow> int list \<Rightarrow> (int \<times> int) list" where
  "compute_pads shape blocksize = map (\<lambda>(x, y). pad_axis x y) (zip shape blocksize)"

text \<open>The shape of \<^verbatim>\<open>np.pad(fix, pads)\<close>: each axis grows by its two pad widths.\<close>

definition padded_shape :: "nat list \<Rightarrow> (int \<times> int) list \<Rightarrow> int list" where
  "padded_shape shape pads = map (\<lambda>(x, (a, b)). a + int x + b) (zip shape pads)"

record geometry =
  g_blocksize :: "int list"
  g_overlaps :: "int list"
  g_pads :: "(int \<times> int) list"

definition block_geometry :: "nat list \<Rightarrow> int list \<Rightarrow> real \<Rightarrow> failure + geometry" where
  "block_geometry shape nblocks overlap =
     (case compute_blocksize shape nblocks of
        Inl e \<Rightarrow> Inl e
      | Inr bs \<Rightarrow>
          Inr \<lparr>g_blocksize = bs,
               g_overlaps = compute_overlaps bs overlap,
               g_pads = compute_pads shape bs\<rparr>)"

subsection \<open>Homogeneous 4x4 matrices\<close>

type_synonym mat = "real list list"

text \<open>\<^verbatim>\<open>np.eye(4)\<close>\<close>

definition eye4 :: mat where
  "eye4 = [[1, 0, 0, 0], [0, 1, 0, 0], [0, 0, 1, 0], [0, 0, 0, 1]]"

text \<open>\<^verbatim>\<open>np.matmul\<close> of two 4x4 arrays.\<close>

definition matmul :: "mat \<Rightarrow> mat \<Rightarrow> mat" where
  "matmul a b =
     map (\<lambda>i. map (\<lambda>j. \<Sum>k\<leftarrow>[0, 1, 2, 3]. a ! i ! k * b ! k ! j) [0, 1, 2, 3]) [0, 1, 2, 3]"

text \<open>
  The right-hand side of an assignment to three slots (\<^verbatim>\<open>m[:3, -1] = v\<close>): a vector of
  length three fits, one of length one is repeated, any other length raises.
\<close>

definition broadcast3 :: "real list \<Rightarrow> failure + real list" where
  "broadcast3 v =
     (if length v = 3 then Inr v
      else if length v = 1 then Inr [hd v, hd v, hd v]
      else Inl ValueError)"

text \<open>\<^verbatim>\<open>t = np.eye(4); t[:3, -1] = v\<close>\<close>

definition translation_matrix :: "real list \<Rightarrow> failure + mat" where
  "translation_matrix v =
     (case broadcast3 v of
        Inl e \<Rightarrow> Inl e
      | Inr w \<Rightarrow> Inr [[1, 0, 0, w ! 0], [0, 1, 0, w ! 1], [0, 0, 1, w ! 2], [0, 0, 0, 1]])"

text \<open>
  \<^verbatim>\<open>m = np.eye(4); m[:3, :3] = lin; m[:3, -1] = tr\<close> for a 3x3 block and a
  3-vector.
\<close>

definition assemble :: "real list list \<Rightarrow> real list \<Rightarrow> mat" where
  "assemble lin tr = map (\<lambda>i. take 3 (lin ! i) @ [tr ! i]) [0, 1, 2] @ [[0, 0, 0, 1]]"

text \<open>\<^verbatim>\<open>utility.invert_matrix_axes\<close>: both axes of the linear part and the translation are reversed.\<close>

definition invert_matrix_axes :: "mat \<Rightarrow> mat" where
  "invert_matrix_axes matrix =
     assemble (rev (map (\<lambda>r. rev (take 3 r)) (take 3 matrix)))
              (rev (map (\<lambda>r. r ! 3) (take 3 matrix)))"

subsection \<open>SimpleITK as an interface\<close>

text \<open>
  A SimpleITK transform object: its kind, its 3x3 matrix and its translation
  (\<^verbatim>\<open>GetMatrix\<close>, \<^verbatim>\<open>GetTranslation\<close>).
\<close>

datatype transform =
  Euler3DTransform "real list list" "real list"
| AffineTransform "real list list" "real list"

fun GetMatrix :: "transform \<Rightarrow> real list list" where
  "GetMatrix (Euler3DTransform m t) = m"
| "GetMatrix (AffineTransform m t) = m"

fun GetTranslation :: "transform \<Rightarrow> real list" where
  "GetTranslation (Euler3DTransform m t) = t"
| "GetTranslation (AffineTransform m t) = t"

definition eye3 :: "real list list" where
  "eye3 = [[1, 0, 0], [0, 1, 0], [0, 0, 1]]"

text \<open>\<^verbatim>\<open>utility.affine_transform_to_matrix\<close>\<close>

definition affine_transform_to_matrix :: "transform \<Rightarrow> mat" where
  "affine_transform_to_matrix t = invert_matrix_axes (assemble (GetMatrix t) (GetTranslation t))"

text \<open>\<^verbatim>\<open>utility.matrix_to_affine_transform\<close>\<close>

definition matrix_to_affine_transform :: "mat \<Rightarrow> transform" where
  "matrix_to_affine_transform matrix =
     (let matrix_sitk = invert_matrix_axes matrix
      in AffineTransform (map (take 3) (take 3 matrix_sitk)) (map (\<lambda>r. r ! 3) (take 3 matrix_sitk)))"

text \<open>
  The registration object \<^verbatim>\<open>irm\<close>: its configuration (the keyword arguments given to
  \<^verbatim>\<open>configure_irm\<close>), the transform being optimised in place, the metric masks and the
  moving initial transform.
\<close>

record ('simg, 'cfg) irm =
  irm_config :: 'cfg
  irm_transform :: "transform option"
  irm_fixed_mask :: "'simg option"
  irm_moving_mask :: "'simg option"
  irm_moving_initial :: "transform option"

text \<open>
  What the model takes from numpy arrays, SimpleITK and \<^verbatim>\<open>CircuitSeeker.quality\<close>
  without looking inside:
  \<^item> \<open>shape_of\<close>: \<^verbatim>\<open>image.shape\<close>;
  \<^item> \<open>subsample\<close>: \<^verbatim>\<open>image[::a, ::b, ::c]\<close>;
  \<^item> \<open>big_endian\<close>: \<^verbatim>\<open>str(image.dtype)[0] == '>'\<close>;
  \<^item> \<open>get_image\<close>: \<^verbatim>\<open>sitk.GetImageFromArray\<close> followed by \<^verbatim>\<open>SetSpacing\<close> and
    \<^verbatim>\<open>SetOrigin\<close>;
  \<^item> \<open>cast_float32\<close>: \<^verbatim>\<open>sitk.Cast(image, sitk.sitkFloat32)\<close>;
  \<^item> \<open>euler_accepts\<close>: whether \<^verbatim>\<open>Euler3DTransform.SetMatrix\<close> takes the matrix;
  \<^item> \<open>centered_initializer\<close>: \<^verbatim>\<open>sitk.CenteredTransformInitializer\<close>;
  \<^item> \<open>metric_evaluate\<close>: \<^verbatim>\<open>irm.MetricEvaluate(fix, mov)\<close>, a value or an exception;
  \<^item> \<open>execute\<close>: \<^verbatim>\<open>irm.Execute(fix, mov)\<close>, the optimised transform (written in
    place) or an exception;
  \<^item> \<open>jaccard_index\<close>: the Jaccard index of two masks.
\<close>

record ('img, 'simg, 'cfg) library =
  shape_of :: "'img \<Rightarrow> nat list"
  subsample :: "'img \<Rightarrow> int list \<Rightarrow> 'img"
  big_endian :: "'img \<Rightarrow> bool"
  get_image :: "'img \<Rightarrow> real list \<Rightarrow> real list \<Rightarrow> 'simg"
  cast_float32 :: "'simg \<Rightarrow> 'simg"
  euler_accepts :: "real list list \<Rightarrow> bool"
  centered_initializer :: "'simg \<Rightarrow> 'simg \<Rightarrow> transform \<Rightarrow> transform"
  metric_evaluate :: "('simg, 'cfg) irm \<Rightarrow> 'simg \<Rightarrow> 'simg \<Rightarrow> failure + real"
  execute :: "('simg, 'cfg) irm \<Rightarrow> 'simg \<Rightarrow> 'simg \<Rightarrow> failure + transform"
  jaccard_index :: "'img \<Rightarrow> 'img \<Rightarrow> real"

text \<open>What the functions print and which SimpleITK calls they make, in order.\<close>

datatype event =
  Print string
| PrintFailure string failure
| PrintValue string real
| MetricEvaluateCall
| ExecuteCall

text \<open>\<^verbatim>\<open>configure_irm(**kwargs)\<close>: a fresh registration object holding the configuration.\<close>

definition configure_irm :: "'cfg \<Rightarrow> ('simg, 'cfg) irm" where
  "configure_irm kwargs =
     \<lparr>irm_config = kwargs, irm_transform = None, irm_fixed_mask = None,
      irm_moving_mask = None, irm_moving_initial = None\<rparr>"

text \<open>
  \<^verbatim>\<open>utility.skip_sample\<close>:
  \<^verbatim>\<open>ss = np.maximum(np.round(ss_spacing / spacing), 1).astype(np.int)\<close>,
  \<^verbatim>\<open>image = image[::ss[0], ::ss[1], ::ss[2]]\<close>, \<^verbatim>\<open>spacing = spacing * ss\<close>.
  A spacing of zero makes the quotient infinite or undefined. Reading \<^verbatim>\<open>ss[2]\<close> raises
  \<^verbatim>\<open>IndexError\<close> when the spacing has fewer than three entries.
\<close>

definition skip_sample ::
  "('img, 'simg, 'cfg) library \<Rightarrow> 'img \<Rightarrow> real list \<Rightarrow> real \<Rightarrow> failure + 'img \<times> real list" where
  "skip_sample api img spacing ss_spacing =
     (if \<exists>s \<in> set spacing. s = 0 then Inl NonFinite
      else
        let ss = map (\<lambda>s. max (np_round (ss_spacing / s)) 1) spacing
        in if length ss < 3 then Inl IndexError
           else Inr (subsample api img (take 3 ss),
                     map (\<lambda>(s, k). s * real_of_int k) (zip spacing ss)))"

text \<open>
  \<^verbatim>\<open>utility.numpy_to_sitk\<close>: big-endian arrays are refused with \<^verbatim>\<open>TypeError\<close>; a
  missing origin is the zero vector. (The reversal of spacing and origin is part of
  \<open>get_image\<close>.)
\<close>

definition numpy_to_sitk ::
  "('img, 'simg, 'cfg) library \<Rightarrow> 'img \<Rightarrow> real list \<Rightarrow> real list option \<Rightarrow> failure + 'simg" where
  "numpy_to_sitk api img spacing origin =
     (if big_endian api img then Inl TypeError
      else Inr (get_image api img (rev spacing)
                  (rev (case origin of None \<Rightarrow> replicate (length spacing) 0 | Some orig \<Rightarrow> orig))))"

text \<open>
  \<^verbatim>\<open>utility.matrix_to_euler_transform\<close>: as for the affine transform, but
  \<^verbatim>\<open>Euler3DTransform.SetMatrix\<close> may refuse the matrix.
\<close>

definition matrix_to_euler_transform ::
  "('img, 'simg, 'cfg) library \<Rightarrow> mat \<Rightarrow> failure + transform" where
  "matrix_to_euler_transform api matrix =
     (let matrix_sitk = invert_matrix_axes matrix;
          lin = map (take 3) (take 3 matrix_sitk)
      in if euler_accepts api lin
         then Inr (Euler3DTransform lin (map (\<lambda>r. r ! 3) (take 3 matrix_sitk)))
         else Inl ITKException)"

text \<open>\<^verbatim>\<open>sitk.Euler3DTransform(transform)\<close>: the same parameters as an Euler transform.\<close>

definition as_euler :: "transform \<Rightarrow> transform" where
  "as_euler t = Euler3DTransform (GetMatrix t) (GetTranslation t)"

text \<open>Sequencing of steps that may raise: the first failure is the result.\<close>

definition on_success :: "failure + 'a \<Rightarrow> ('a \<Rightarrow> failure + 'b) \<Rightarrow> failure + 'b" where
  "on_success m f = (case m of Inl e \<Rightarrow> Inl e | Inr x \<Rightarrow> f x)"

subsection \<open>The Jaccard pre-check\<close>

text \<open>
  Modelled from the spec: \<^verbatim>\<open>jaccard_filter\<close> of \<^verbatim>\<open>CircuitSeeker.quality\<close>, which is
  not among the sources. The spec and the docstrings of its callers say that the alignment is
  skipped when the Jaccard index of the two masks is less than the threshold, so the filter
  passes exactly when the index is not below the threshold.
\<close>

definition jaccard_filter :: "('img \<Rightarrow> 'img \<Rightarrow> real) \<Rightarrow> 'img \<Rightarrow> 'img \<Rightarrow> real \<Rightarrow> bool" where
  "jaccard_filter jaccard fix_mask mov_mask threshold = (\<not> jaccard fix_mask mov_mask < threshold)"

text \<open>
  Modelled from the spec: the Jaccard index of two binary masks given voxel by voxel,
  intersection over union (glossary of the spec). The spec does not say what the index of
  two empty masks is; the quotient is 0 here.
\<close>

definition jaccard_of_voxels :: "bool list \<Rightarrow> bool list \<Rightarrow> real" where
  "jaccard_of_voxels a b =
     real (length (filter (\<lambda>(x, y). x \<and> y) (zip a b))) /
     real (length (filter (\<lambda>(x, y). x \<or> y) (zip a b)))"

text \<open>
  \<^verbatim>\<open>a = jaccard_filter_threshold is not None\<close>, \<^verbatim>\<open>b = fix_mask is not None\<close>,
  \<^verbatim>\<open>c = mov_mask is not None\<close>,
  \<^verbatim>\<open>if a and b and c: if not jaccard_filter(fix_mask, mov_mask, jaccard_filter_threshold): ...\<close>
  The result is true when the early return is taken.
\<close>

definition masks_fail_jaccard ::
  "('img, 'simg, 'cfg) library \<Rightarrow> real option \<Rightarrow> 'img option \<Rightarrow> 'img option \<Rightarrow> bool" where
  "masks_fail_jaccard api threshold fix_mask mov_mask =
     (case threshold of
        None \<Rightarrow> False
      | Some t \<Rightarrow>
          (case fix_mask of
             None \<Rightarrow> False
           | Some fm \<Rightarrow>
               (case mov_mask of
                  None \<Rightarrow> False
                | Some mm \<Rightarrow> \<not> jaccard_filter (jaccard_index api) fm mm t)))"

subsection \<open>\<^verbatim>\<open>affine_align\<close>\<close>

record ('img, 'cfg) align_args =
  a_fix :: 'img
  a_mov :: 'img
  a_fix_spacing :: "real list"
  a_mov_spacing :: "real list"
  a_rigid :: bool
  a_initial_transform :: "mat option"
  a_initialize_with_centering :: bool
  a_alignment_spacing :: "real option"
  a_fix_mask :: "'img option"
  a_mov_mask :: "'img option"
  a_fix_origin :: "real list option"
  a_mov_origin :: "real list option"
  a_jaccard_filter_threshold :: "real option"
  a_default :: mat
  a_kwargs :: 'cfg

text \<open>
  \<^verbatim>\<open>if initial_transform is not None and np.all(default == np.eye(4)): default = initial_transform\<close>
\<close>

definition update_default :: "mat option \<Rightarrow> mat \<Rightarrow> mat" where
  "update_default initial_transform dflt =
     (case initial_transform of
        None \<Rightarrow> dflt
      | Some it \<Rightarrow> if dflt = eye4 then it else dflt)"

text \<open>
  The block \<^verbatim>\<open>if alignment_spacing is not None: ...\<close> that \<^verbatim>\<open>affine_align\<close> and
  \<^verbatim>\<open>random_affine_search\<close> share: images and masks are skip-sampled, the masks with the
  spacing of their image, and the spacings are replaced.
\<close>

definition skip_sample_mask ::
  "('img, 'simg, 'cfg) library \<Rightarrow> 'img option \<Rightarrow> real list \<Rightarrow> real \<Rightarrow> failure + 'img option" where
  "skip_sample_mask api msk spacing ss_spacing =
     (case msk of
        None \<Rightarrow> Inr None
      | Some m \<Rightarrow> on_success (skip_sample api m spacing ss_spacing) (\<lambda>(m', _). Inr (Some m')))"

definition skip_sample_inputs ::
  "('img, 'simg, 'cfg) library \<Rightarrow> 'img \<Rightarrow> 'img \<Rightarrow> real list \<Rightarrow> real list \<Rightarrow>
   'img option \<Rightarrow> 'img option \<Rightarrow> real option \<Rightarrow>
   failure + ('img \<times> 'img \<times> real list \<times> real list \<times> 'img option \<times> 'img option)" where
  "skip_sample_inputs api fix mov fix_spacing mov_spacing fix_mask mov_mask alignment_spacing =
     (case alignment_spacing of
        None \<Rightarrow> Inr (fix, mov, fix_spacing, mov_spacing, fix_mask, mov_mask)
      | Some a \<Rightarrow>
          on_success (skip_sample api fix fix_spacing a) (\<lambda>(fix', fix_spacing_ss).
          on_success (skip_sample api mov mov_spacing a) (\<lambda>(mov', mov_spacing_ss).
          on_success (skip_sample_mask api fix_mask fix_spacing a) (\<lambda>fix_mask'.
          on_success (skip_sample_mask api mov_mask mov_spacing a) (\<lambda>mov_mask'.
            Inr (fix', mov', fix_spacing_ss, mov_spacing_ss, fix_mask', mov_mask'))))))"

text \<open>
  The block \<^verbatim>\<open># set masks\<close>: each mask that is given is converted and installed in the
  registration object.
\<close>

definition set_masks ::
  "('img, 'simg, 'cfg) library \<Rightarrow> ('simg, 'cfg) irm \<Rightarrow> 'img option \<Rightarrow> 'img option \<Rightarrow>
   real list \<Rightarrow> real list \<Rightarrow> real list option \<Rightarrow> real list option \<Rightarrow> failure + ('simg, 'cfg) irm" where
  "set_masks api r fix_mask mov_mask fix_spacing mov_spacing fix_origin mov_origin =
     on_success
       (case fix_mask of
          None \<Rightarrow> Inr r
        | Some fm \<Rightarrow>
            on_success (numpy_to_sitk api fm fix_spacing fix_origin)
              (\<lambda>fm_sitk. Inr (r\<lparr>irm_fixed_mask := Some fm_sitk\<rparr>)))
       (\<lambda>r'. case mov_mask of
          None \<Rightarrow> Inr r'
        | Some mm \<Rightarrow>
            on_success (numpy_to_sitk api mm mov_spacing mov_origin)
              (\<lambda>mm_sitk. Inr (r'\<lparr>irm_moving_mask := Some mm_sitk\<rparr>)))"

text \<open>
  \<^verbatim>\<open># select initial transform type\<close>: the four-way branch on \<^verbatim>\<open>rigid\<close> and
  \<^verbatim>\<open>initial_transform\<close>.
\<close>

definition select_transform ::
  "('img, 'simg, 'cfg) library \<Rightarrow> bool \<Rightarrow> mat option \<Rightarrow> failure + transform" where
  "select_transform api rigid initial_transform =
     (case initial_transform of
        None \<Rightarrow> if rigid then Inr (Euler3DTransform eye3 [0, 0, 0])
                else Inr (AffineTransform eye3 [0, 0, 0])
      | Some it \<Rightarrow> if rigid then matrix_to_euler_transform api it
                   else Inr (matrix_to_affine_transform it))"

text \<open>
  Everything between the Jaccard pre-check and the \<^verbatim>\<open>try\<close> block of
  \<^verbatim>\<open>affine_align\<close>: skip sampling, conversion to float32 SimpleITK images, the
  registration object, the initial transform (centred when asked and none was given) and
  the masks. An exception here is not caught.
\<close>

definition prepare_alignment ::
  "('img, 'simg, 'cfg) library \<Rightarrow> ('img, 'cfg) align_args \<Rightarrow>
   failure + (('simg, 'cfg) irm \<times> 'simg \<times> 'simg)" where
  "prepare_alignment api args =
     on_success
       (skip_sample_inputs api (a_fix args) (a_mov args) (a_fix_spacing args) (a_mov_spacing args)
          (a_fix_mask args) (a_mov_mask args) (a_alignment_spacing args))
       (\<lambda>(fix, mov, fix_spacing, mov_spacing, fix_mask, mov_mask).
     on_success (numpy_to_sitk api fix fix_spacing (a_fix_origin args)) (\<lambda>fix_sitk.
     on_success (numpy_to_sitk api mov mov_spacing (a_mov_origin args)) (\<lambda>mov_sitk.
     on_success (select_transform api (a_rigid args) (a_initial_transform args)) (\<lambda>transform.
       let fix_f = cast_float32 api fix_sitk;
           mov_f = cast_float32 api mov_sitk;
           transform' =
             (if a_initial_transform args = None \<and> a_initialize_with_centering args
              then centered_initializer api fix_f mov_f transform else transform);
           r = (configure_irm (a_kwargs args))\<lparr>irm_transform := Some transform'\<rparr>
       in on_success
            (set_masks api r fix_mask mov_mask fix_spacing mov_spacing
               (a_fix_origin args) (a_mov_origin args))
            (\<lambda>r'. Inr (r', fix_f, mov_f))))))"

text \<open>
  The \<^verbatim>\<open>try\<close> block and the comparison after it. Any exception of the two metric
  evaluations or of the optimisation is caught and the default is returned. Otherwise the
  optimised transform is returned when the final metric value is less than the initial one,
  and the default, after printing both values, when it is not.
\<close>

definition failed_registration :: "failure \<Rightarrow> event list" where
  "failed_registration e =
     [PrintFailure ''Registration failed due to ITK exception:'' e, Print ''Returning default'']"

definition not_improved :: "real \<Rightarrow> real \<Rightarrow> event list" where
  "not_improved initial_metric_value final_metric_value =
     [Print ''Optimization failed to improve metric'',
      PrintValue ''initial value: '' initial_metric_value,
      PrintValue ''final value: '' final_metric_value,
      Print ''Returning default'']"

definition run_alignment ::
  "('img, 'simg, 'cfg) library \<Rightarrow> ('simg, 'cfg) irm \<Rightarrow> 'simg \<Rightarrow> 'simg \<Rightarrow> bool \<Rightarrow> bool \<Rightarrow> mat \<Rightarrow>
   mat \<times> event list" where
  "run_alignment api r fix mov rigid initialize_with_centering dflt =
     (case metric_evaluate api r fix mov of
        Inl e \<Rightarrow> (dflt, MetricEvaluateCall # failed_registration e)
      | Inr initial_metric_value \<Rightarrow>
          (case execute api r fix mov of
             Inl e \<Rightarrow> (dflt, [MetricEvaluateCall, ExecuteCall] @ failed_registration e)
           | Inr optimised \<Rightarrow>
               (case metric_evaluate api (r\<lparr>irm_transform := Some optimised\<rparr>) fix mov of
                  Inl e \<Rightarrow>
                    (dflt, [MetricEvaluateCall, ExecuteCall, MetricEvaluateCall]
                           @ failed_registration e)
                | Inr final_metric_value \<Rightarrow>
                    (let transform =
                           (if rigid \<and> initialize_with_centering then as_euler optimised
                            else optimised)
                     in if final_metric_value < initial_metric_value
                        then (affine_transform_to_matrix transform,
                              [MetricEvaluateCall, ExecuteCall, MetricEvaluateCall])
                        else (dflt, [MetricEvaluateCall, ExecuteCall, MetricEvaluateCall]
                                    @ not_improved initial_metric_value final_metric_value)))))"

text \<open>
  \<^verbatim>\<open>affine_align\<close>: the result (a matrix, or an exception that was not caught) and what
  was printed and called on the way.
\<close>

definition affine_align ::
  "('img, 'simg, 'cfg) library \<Rightarrow> ('img, 'cfg) align_args \<Rightarrow> (failure + mat) \<times> event list" where
  "affine_align api args =
     (let dflt = update_default (a_initial_transform args) (a_default args)
      in if masks_fail_jaccard api (a_jaccard_filter_threshold args) (a_fix_mask args)
              (a_mov_mask args)
         then (Inr dflt, [Print ''Masks failed jaccard_filter'', Print ''Returning default''])
         else (case prepare_alignment api args of
                 Inl e \<Rightarrow> (Inl e, [])
               | Inr (r, fix, mov) \<Rightarrow>
                   (let (m, evs) =
                          run_alignment api r fix mov (a_rigid args)
                            (a_initialize_with_centering args) dflt
                    in (Inr m, evs))))"

subsection \<open>\<^verbatim>\<open>random_affine_search\<close>\<close>

record ('img, 'cfg) search_args =
  s_fix :: 'img
  s_mov :: 'img
  s_fix_spacing :: "real list"
  s_mov_spacing :: "real list"
  s_max_translation :: real
  s_max_rotation :: real
  s_max_scale :: real
  s_max_shear :: real
  s_random_iterations :: nat
  s_affine_align_best :: nat
  s_alignment_spacing :: "real option"
  s_fix_mask :: "'img option"
  s_mov_mask :: "'img option"
  s_fix_origin :: "real list option"
  s_mov_origin :: "real list option"
  s_jaccard_filter_threshold :: "real option"
  s_kwargs :: 'cfg

text \<open>
  The arrays that the calls of \<^verbatim>\<open>np.random.rand(random_iterations, 3)\<close> return, one
  for each group of parameters, as functions of row and column.
\<close>

record draws =
  draw_translation :: "nat \<Rightarrow> nat \<Rightarrow> real"
  draw_rotation :: "nat \<Rightarrow> nat \<Rightarrow> real"
  draw_scale :: "nat \<Rightarrow> nat \<Rightarrow> real"
  draw_shear :: "nat \<Rightarrow> nat \<Rightarrow> real"

text \<open>\<^verbatim>\<open>F = lambda mx: 2 * mx * np.random.rand(random_iterations, 3) - mx\<close>, one row.\<close>

definition F_row :: "real \<Rightarrow> (nat \<Rightarrow> real) \<Rightarrow> real list" where
  "F_row mx u = map (\<lambda>c. 2 * mx * u c - mx) [0, 1, 2]"

text \<open>Row 0 of \<^verbatim>\<open>params\<close>: zeros, and ones in the scale columns 6 to 8.\<close>

definition identity_params :: "real list" where
  "identity_params = [0, 0, 0, 0, 0, 0, 1, 1, 1, 0, 0, 0]"

text \<open>
  Row \<open>k + 1\<close> of \<^verbatim>\<open>params\<close>: each group is overwritten with random values only
  when its amplitude is not the neutral one. The scale is
  \<^verbatim>\<open>np.e**F(np.log(max_scale))\<close>; for a \<^verbatim>\<open>max_scale\<close> that is not positive numpy's
  logarithm is infinite or undefined, and \<open>ln\<close> says nothing about the row.
\<close>

definition random_params :: "('img, 'cfg) search_args \<Rightarrow> draws \<Rightarrow> nat \<Rightarrow> real list" where
  "random_params args d k =
     (if s_max_translation args \<noteq> 0 then F_row (s_max_translation args) (draw_translation d k)
      else [0, 0, 0])
     @ (if s_max_rotation args \<noteq> 0 then F_row (s_max_rotation args) (draw_rotation d k)
        else [0, 0, 0])
     @ (if s_max_scale args \<noteq> 1
        then map exp (F_row (ln (s_max_scale args)) (draw_scale d k))
        else [1, 1, 1])
     @ (if s_max_shear args \<noteq> 0 then F_row (s_max_shear args) (draw_shear d k)
        else [0, 0, 0])"

text \<open>
  \<^verbatim>\<open>params = np.zeros((random_iterations+1, 12))\<close> and the assignments after it:
  \<open>random_iterations + 1\<close> rows, the first of which is never overwritten.
\<close>

definition generate_params :: "('img, 'cfg) search_args \<Rightarrow> draws \<Rightarrow> real list list" where
  "generate_params args d =
     identity_params # map (random_params args d) [0..<s_random_iterations args]"

text \<open>
  The closure \<^verbatim>\<open>params_to_affine_matrix\<close>. It reads \<^verbatim>\<open>fix.shape\<close> and
  \<^verbatim>\<open>fix_spacing\<close> when it is called, that is after skip sampling. The assignment of
  the centre to three slots raises unless the image has three axes (or one). \<open>rotvec\<close> is
  scipy's \<^verbatim>\<open>Rotation.from_rotvec(v).as_matrix()\<close>, a 3x3 matrix, which the model takes
  as a parameter.
\<close>

definition params_to_affine_matrix ::
  "(real list \<Rightarrow> real list list) \<Rightarrow> nat list \<Rightarrow> real list \<Rightarrow> real list \<Rightarrow> failure + mat" where
  "params_to_affine_matrix rotvec shape fix_spacing params =
     on_success (translation_matrix (take 3 params)) (\<lambda>translation.
     on_success (broadcast_1d shape fix_spacing) (\<lambda>ps.
     on_success (translation_matrix (map (\<lambda>(x, s). real x / 2 * s) ps)) (\<lambda>tl.
     on_success (translation_matrix (map (\<lambda>(x, s). - (real x / 2 * s)) ps)) (\<lambda>tr.
       let rotation = matmul tl (matmul (assemble (rotvec (take 3 (drop 3 params))) [0, 0, 0]) tr);
           scale = [[params ! 6, 0, 0, 0], [0, params ! 7, 0, 0], [0, 0, params ! 8, 0],
                    [0, 0, 0, 1]];
           shx = [[1, 0, 0, 0], [params ! 10, 1, 0, 0], [params ! 11, 0, 1, 0], [0, 0, 0, 1]];
           shy = [[1, params ! 9, 0, 0], [0, 1, 0, 0], [0, params ! 11, 1, 0], [0, 0, 0, 1]];
           shz = [[1, 0, params ! 9, 0], [0, 1, params ! 10, 0], [0, 0, 1, 0], [0, 0, 0, 1]];
           shear = matmul shz (matmul shy shx)
       in Inr (matmul shear (matmul scale (matmul rotation translation)))))))"

text \<open>\<^verbatim>\<open>np.finfo(scores.dtype).max\<close> for float64.\<close>

definition float64_max :: real where
  "float64_max = (2 - 1 / 2 ^ 52) * 2 ^ 1023"

text \<open>
  How a loop body leaves: an exception that is not caught, a \<^verbatim>\<open>return\<close> from the
  function, or the end of the loop.
\<close>

datatype flow = Raised failure | Returned mat | Fallthrough

text \<open>
  The state of a scoring loop: the slots of \<^verbatim>\<open>scores\<close> written so far (iteration
  \<open>iii\<close> writes slot \<open>iii\<close>, so they form a prefix of the array), the failure counter, the
  registration object and the events.
\<close>

record ('simg, 'cfg) scoring =
  sc_scores :: "real list"
  sc_fail_count :: nat
  sc_irm :: "('simg, 'cfg) irm"
  sc_events :: "event list"

definition random_search_failed :: "failure \<Rightarrow> event list" where
  "random_search_failed e =
     [PrintFailure ''Random search failed due to ITK exception:'' e, Print ''Returning default'']"

text \<open>
  \<^verbatim>\<open># score all random affines\<close>: the loop over the rows of \<^verbatim>\<open>params\<close>. A metric
  evaluation that raises gives the candidate the largest float and counts as a failure; the
  function returns the identity at the failure that brings the count to 10 or to
  \<open>random_iterations + 1\<close>.
\<close>

fun score_candidates ::
  "('img, 'simg, 'cfg) library \<Rightarrow> (real list \<Rightarrow> failure + mat) \<Rightarrow> 'simg \<Rightarrow> 'simg \<Rightarrow> nat \<Rightarrow>
   real list list \<Rightarrow> ('simg, 'cfg) scoring \<Rightarrow> flow \<times> ('simg, 'cfg) scoring" where
  "score_candidates api p2a fix_sitk mov_sitk random_iterations [] st = (Fallthrough, st)"
| "score_candidates api p2a fix_sitk mov_sitk random_iterations (ppp # rest) st =
     (case p2a ppp of
        Inl e \<Rightarrow> (Raised e, st)
      | Inr aff \<Rightarrow>
          (let r = (sc_irm st)\<lparr>irm_moving_initial := Some (matrix_to_affine_transform aff)\<rparr>
           in case metric_evaluate api r fix_sitk mov_sitk of
                Inr v \<Rightarrow>
                  score_candidates api p2a fix_sitk mov_sitk random_iterations rest
                    (st\<lparr>sc_scores := sc_scores st @ [v], sc_irm := r,
                        sc_events := sc_events st @ [MetricEvaluateCall]\<rparr>)
              | Inl e \<Rightarrow>
                  (let st' = st\<lparr>sc_scores := sc_scores st @ [float64_max],
                                 sc_fail_count := sc_fail_count st + 1, sc_irm := r,
                                 sc_events := sc_events st @ [MetricEvaluateCall]\<rparr>
                   in if sc_fail_count st' \<ge> 10 \<or> sc_fail_count st' \<ge> random_iterations + 1
                      then (Returned eye4,
                            st'\<lparr>sc_events := sc_events st' @ random_search_failed e\<rparr>)
                      else score_candidates api p2a fix_sitk mov_sitk random_iterations rest st')))"

text \<open>
  \<^verbatim>\<open>np.argsort(scores)\<close>: the indices ordered by score. Equal scores keep their order
  here; numpy's default sort may order them differently.
\<close>

definition argsort :: "real list \<Rightarrow> nat list" where
  "argsort scores = map snd (sort_key fst (zip scores [0..<length scores]))"

text \<open>\<^verbatim>\<open>np.argmin(scores)\<close>: the first index of the least score.\<close>

definition argmin :: "real list \<Rightarrow> nat" where
  "argmin scores = length (takeWhile (\<lambda>x. x \<noteq> fold min scores (hd scores)) scores)"

text \<open>
  \<^verbatim>\<open># gradient descent based refinements\<close>: the loop over
  \<^verbatim>\<open>range(affine_align_best)\<close>. Each of the best candidates is refined by
  \<^verbatim>\<open>affine_align\<close> and the refined matrix is scored; the function returns the identity
  once \<open>affine_align_best\<close> evaluations have failed. \<open>align\<close> is the call of
  \<^verbatim>\<open>affine_align\<close> with everything but the initial transform fixed.
\<close>

fun refine_candidates ::
  "('img, 'simg, 'cfg) library \<Rightarrow> (real list \<Rightarrow> failure + mat) \<Rightarrow>
   (mat \<Rightarrow> (failure + mat) \<times> event list) \<Rightarrow> 'simg \<Rightarrow> 'simg \<Rightarrow> nat \<Rightarrow>
   real list list \<Rightarrow> nat list \<Rightarrow> ('simg, 'cfg) scoring \<Rightarrow> flow \<times> ('simg, 'cfg) scoring" where
  "refine_candidates api p2a align fix_sitk mov_sitk affine_align_best params [] st =
     (Fallthrough, st)"
| "refine_candidates api p2a align fix_sitk mov_sitk affine_align_best params (iii # rest) st =
     (if length params \<le> iii then (Raised IndexError, st)
      else case p2a (params ! iii) of
        Inl e \<Rightarrow> (Raised e, st)
      | Inr aff \<Rightarrow>
          (case align aff of
             (Inl e, evs) \<Rightarrow> (Raised e, st\<lparr>sc_events := sc_events st @ evs\<rparr>)
           | (Inr refined, evs) \<Rightarrow>
               (let r = (sc_irm st)
                          \<lparr>irm_moving_initial := Some (matrix_to_affine_transform refined)\<rparr>
                in case metric_evaluate api r fix_sitk mov_sitk of
                     Inr v \<Rightarrow>
                       refine_candidates api p2a align fix_sitk mov_sitk affine_align_best
                         params rest
                         (st\<lparr>sc_scores := sc_scores st @ [v], sc_irm := r,
                             sc_events := sc_events st @ evs @ [MetricEvaluateCall]\<rparr>)
                   | Inl e \<Rightarrow>
                       (let st' = st\<lparr>sc_scores := sc_scores st @ [float64_max],
                                      sc_fail_count := sc_fail_count st + 1, sc_irm := r,
                                      sc_events := sc_events st @ evs @ [MetricEvaluateCall]\<rparr>
                        in if sc_fail_count st' \<ge> affine_align_best
                           then (Returned eye4,
                                 st'\<lparr>sc_events := sc_events st' @ random_search_failed e\<rparr>)
                           else refine_candidates api p2a align fix_sitk mov_sitk
                                  affine_align_best params rest st'))))"

text \<open>
  Everything of \<^verbatim>\<open>random_affine_search\<close> between the Jaccard pre-check and the scoring
  loop: the registration object, skip sampling, the float32 SimpleITK images and the masks.
  The skip-sampled numpy arrays are kept: the refinement passes them to
  \<^verbatim>\<open>affine_align\<close>.
\<close>

record ('img, 'simg, 'cfg) search_context =
  c_irm :: "('simg, 'cfg) irm"
  c_fix :: 'img
  c_mov :: 'img
  c_fix_spacing :: "real list"
  c_mov_spacing :: "real list"
  c_fix_mask :: "'img option"
  c_mov_mask :: "'img option"
  c_fix_sitk :: 'simg
  c_mov_sitk :: 'simg

definition prepare_search ::
  "('img, 'simg, 'cfg) library \<Rightarrow> ('img, 'cfg) search_args \<Rightarrow>
   failure + ('img, 'simg, 'cfg) search_context" where
  "prepare_search api args =
     on_success
       (skip_sample_inputs api (s_fix args) (s_mov args) (s_fix_spacing args) (s_mov_spacing args)
          (s_fix_mask args) (s_mov_mask args) (s_alignment_spacing args))
       (\<lambda>(fix, mov, fix_spacing, mov_spacing, fix_mask, mov_mask).
     on_success (numpy_to_sitk api fix fix_spacing (s_fix_origin args)) (\<lambda>fix_sitk.
     on_success (numpy_to_sitk api mov mov_spacing (s_mov_origin args)) (\<lambda>mov_sitk.
     on_success
       (set_masks api (configure_irm (s_kwargs args)) fix_mask mov_mask fix_spacing mov_spacing
          (s_fix_origin args) (s_mov_origin args))
       (\<lambda>r. Inr \<lparr>c_irm = r, c_fix = fix, c_mov = mov, c_fix_spacing = fix_spacing,
                 c_mov_spacing = mov_spacing, c_fix_mask = fix_mask, c_mov_mask = mov_mask,
                 c_fix_sitk = cast_float32 api fix_sitk,
                 c_mov_sitk = cast_float32 api mov_sitk\<rparr>))))"

text \<open>The arguments of the call of \<^verbatim>\<open>affine_align\<close> in the refinement loop.\<close>

definition refinement_args ::
  "('img, 'cfg) search_args \<Rightarrow> ('img, 'simg, 'cfg) search_context \<Rightarrow> mat \<Rightarrow> ('img, 'cfg) align_args" where
  "refinement_args args c aff =
     \<lparr>a_fix = c_fix c, a_mov = c_mov c,
      a_fix_spacing = c_fix_spacing c, a_mov_spacing = c_mov_spacing c,
      a_rigid = False, a_initial_transform = Some aff, a_initialize_with_centering = False,
      a_alignment_spacing = None,
      a_fix_mask = c_fix_mask c, a_mov_mask = c_mov_mask c,
      a_fix_origin = s_fix_origin args, a_mov_origin = s_mov_origin args,
      a_jaccard_filter_threshold = None, a_default = eye4, a_kwargs = s_kwargs args\<rparr>"

text \<open>The closure \<^verbatim>\<open>params_to_affine_matrix\<close> as the loops see it.\<close>

definition search_p2a ::
  "('img, 'simg, 'cfg) library \<Rightarrow> (real list \<Rightarrow> real list list) \<Rightarrow>
   ('img, 'simg, 'cfg) search_context \<Rightarrow> real list \<Rightarrow> failure + mat" where
  "search_p2a api rotvec c =
     params_to_affine_matrix rotvec (shape_of api (c_fix c)) (c_fix_spacing c)"

definition initial_scoring :: "('simg, 'cfg) irm \<Rightarrow> ('simg, 'cfg) scoring" where
  "initial_scoring r = \<lparr>sc_scores = [], sc_fail_count = 0, sc_irm = r, sc_events = []\<rparr>"

text \<open>The scoring loop of a call, from the context that the preparation built.\<close>

definition score_all ::
  "('img, 'simg, 'cfg) library \<Rightarrow> (real list \<Rightarrow> real list list) \<Rightarrow>
   ('img, 'cfg) search_args \<Rightarrow> draws \<Rightarrow> ('img, 'simg, 'cfg) search_context \<Rightarrow>
   flow \<times> ('simg, 'cfg) scoring" where
  "score_all api rotvec args d c =
     score_candidates api (search_p2a api rotvec c) (c_fix_sitk c) (c_mov_sitk c)
       (s_random_iterations args) (generate_params args d) (initial_scoring (c_irm c))"

text \<open>
  What follows the scoring loop when it ends without a return: the rows are sorted by score;
  without refinement the best row's matrix is the result, otherwise the best rows are refined
  and the row (not the refined matrix) with the least refined score gives the result.
\<close>

definition rank_and_refine ::
  "('img, 'simg, 'cfg) library \<Rightarrow> (real list \<Rightarrow> real list list) \<Rightarrow>
   ('img, 'cfg) search_args \<Rightarrow> draws \<Rightarrow> ('img, 'simg, 'cfg) search_context \<Rightarrow>
   ('simg, 'cfg) scoring \<Rightarrow> (failure + mat) \<times> event list" where
  "rank_and_refine api rotvec args d c st =
     (let params = map (\<lambda>i. generate_params args d ! i) (argsort (sc_scores st))
      in if s_affine_align_best args = 0
         then (if params = [] then Inl IndexError else search_p2a api rotvec c (params ! 0),
               sc_events st)
         else (case refine_candidates api (search_p2a api rotvec c)
                      (\<lambda>aff. affine_align api (refinement_args args c aff))
                      (c_fix_sitk c) (c_mov_sitk c) (s_affine_align_best args) params
                      [0..<s_affine_align_best args]
                      (initial_scoring (sc_irm st)\<lparr>sc_events := sc_events st\<rparr>) of
                 (Raised e, st') \<Rightarrow> (Inl e, sc_events st')
               | (Returned m, st') \<Rightarrow> (Inr m, sc_events st')
               | (Fallthrough, st') \<Rightarrow>
                   (search_p2a api rotvec c (params ! argmin (sc_scores st')), sc_events st')))"

definition random_affine_search ::
  "('img, 'simg, 'cfg) library \<Rightarrow> (real list \<Rightarrow> real list list) \<Rightarrow>
   ('img, 'cfg) search_args \<Rightarrow> draws \<Rightarrow> (failure + mat) \<times> event list" where
  "random_affine_search api rotvec args d =
     (if masks_fail_jaccard api (s_jaccard_filter_threshold args) (s_fix_mask args)
           (s_mov_mask args)
      then (Inr eye4, [Print ''Masks failed jaccard_filter'', Print ''Returning default''])
      else (case prepare_search api args of
              Inl e \<Rightarrow> (Inl e, [])
            | Inr c \<Rightarrow>
                (case score_all api rotvec args d c of
                   (Raised e, st) \<Rightarrow> (Inl e, sc_events st)
                 | (Returned m, st) \<Rightarrow> (Inr m, sc_events st)
                 | (Fallthrough, st) \<Rightarrow> rank_and_refine api rotvec args d c st)))"

subsection \<open>\<^verbatim>\<open>distributed_piecewise_affine_align\<close>\<close>

text \<open>
  What the model takes from numpy, dask and \<^verbatim>\<open>dask_stitch\<close>:
  \<^item> \<open>np_pad\<close>: \<^verbatim>\<open>np.pad(array, pads)\<close>;
  \<^item> \<open>chunk_grid\<close>: the number of chunks along each axis after
    \<^verbatim>\<open>scatter_dask_array(cluster, array).rechunk(tuple(blocksize))\<close>, or the exception
    dask raises for chunks it does not accept;
  \<^item> \<open>overlap_block\<close>: the block that \<^verbatim>\<open>da.map_overlap\<close> hands to the callback for a
    chunk location, with its halo of depth \<^verbatim>\<open>overlaps\<close>;
  \<^item> \<open>local_affines_to_field\<close>: the stitching of \<^verbatim>\<open>dask_stitch\<close>.
\<close>

record ('img, 'field) dask_api =
  np_pad :: "'img \<Rightarrow> (int \<times> int) list \<Rightarrow> 'img"
  chunk_grid :: "'img \<Rightarrow> int list \<Rightarrow> failure + nat list"
  overlap_block :: "'img \<Rightarrow> int list \<Rightarrow> int list \<Rightarrow> nat list \<Rightarrow> 'img"
  local_affines_to_field ::
    "nat list \<Rightarrow> real list \<Rightarrow> (nat list \<times> mat) list \<Rightarrow> int list \<Rightarrow> int list \<Rightarrow> 'field"

text \<open>
  \<^verbatim>\<open>origin = np.maximum(0, blocksize * idx - overlaps)\<close>,
  \<^verbatim>\<open>origin = origin * fix_spacing\<close>. The chunk location is a tuple of Python integers,
  so the product is computed in 64 bits and does not wrap.
\<close>

definition block_origin :: "int list \<Rightarrow> int list \<Rightarrow> real list \<Rightarrow> nat list \<Rightarrow> failure + real list" where
  "block_origin blocksize overlaps fix_spacing idx =
     on_success (broadcast_1d blocksize idx) (\<lambda>bi.
     on_success (broadcast_1d (map (\<lambda>(b, i). b * int i) bi) overlaps) (\<lambda>bo.
     on_success (broadcast_1d (map (\<lambda>(p, ov). max 0 (p - ov)) bo) fix_spacing) (\<lambda>os.
       Inr (map (\<lambda>(v, sp). real_of_int v * sp) os))))"

text \<open>
  \<^verbatim>\<open># correct for block origin\<close>:
  \<^verbatim>\<open>tl[:3, -1], tr[:3, -1] = origin, -origin\<close>,
  \<^verbatim>\<open>affine = np.matmul(tl, np.matmul(affine, tr))\<close>.
\<close>

definition correct_for_origin :: "real list \<Rightarrow> mat \<Rightarrow> failure + mat" where
  "correct_for_origin origin affine =
     on_success (translation_matrix origin) (\<lambda>tl.
     on_success (translation_matrix (map uminus origin)) (\<lambda>tr.
       Inr (matmul tl (matmul affine tr))))"

text \<open>
  The closure \<^verbatim>\<open>single_affine_align\<close>: a rigid alignment of the block pair, an affine
  alignment initialised with it, and the correction for the block origin. \<open>kwargs\<close> holds
  the keyword arguments that \<^verbatim>\<open>distributed_piecewise_affine_align\<close> passes on; the
  images, spacings, masks, \<^verbatim>\<open>rigid\<close> and \<^verbatim>\<open>initial_transform\<close> are set by the
  closure.
\<close>

definition single_affine_align ::
  "('img, 'simg, 'cfg) library \<Rightarrow> ('img, 'cfg) align_args \<Rightarrow> int list \<Rightarrow> int list \<Rightarrow>
   real list \<Rightarrow> real list \<Rightarrow> 'img \<Rightarrow> 'img \<Rightarrow> 'img option \<Rightarrow> 'img option \<Rightarrow> nat list \<Rightarrow>
   failure + mat" where
  "single_affine_align api kwargs blocksize overlaps fix_spacing mov_spacing fix mov fm mm idx =
     (let args = kwargs\<lparr>a_fix := fix, a_mov := mov, a_fix_spacing := fix_spacing,
                        a_mov_spacing := mov_spacing, a_fix_mask := fm, a_mov_mask := mm\<rparr>
      in on_success (fst (affine_align api (args\<lparr>a_rigid := True, a_initial_transform := None\<rparr>)))
           (\<lambda>rigid.
         on_success
           (fst (affine_align api (args\<lparr>a_rigid := False, a_initial_transform := Some rigid\<rparr>)))
           (\<lambda>affine.
         on_success (block_origin blocksize overlaps fix_spacing idx) (\<lambda>origin.
           correct_for_origin origin affine))))"

text \<open>The results of the blocks in order; the first exception is the result.\<close>

fun collect :: "(failure + 'a) list \<Rightarrow> failure + 'a list" where
  "collect [] = Inr []"
| "collect (r # rs) = on_success r (\<lambda>x. on_success (collect rs) (\<lambda>xs. Inr (x # xs)))"

text \<open>
  \<^verbatim>\<open>distributed_piecewise_affine_align\<close>: the block geometry, the padded arrays, one
  \<^verbatim>\<open>single_affine_align\<close> for every chunk location and the stitched field. The arrays
  are handed to the closure by position, so a moving mask without a fixed mask arrives as
  \<^verbatim>\<open>fm\<close>.
\<close>

definition distributed_piecewise_affine_align ::
  "('img, 'simg, 'cfg) library \<Rightarrow> ('img, 'field) dask_api \<Rightarrow> 'img \<Rightarrow> 'img \<Rightarrow> real list \<Rightarrow>
   real list \<Rightarrow> int list \<Rightarrow> real \<Rightarrow> 'img option \<Rightarrow> 'img option \<Rightarrow> ('img, 'cfg) align_args \<Rightarrow>
   failure + ((nat list \<times> mat) list \<times> 'field)" where
  "distributed_piecewise_affine_align api dk fix mov fix_spacing mov_spacing nblocks overlap
       fix_mask mov_mask kwargs =
     on_success (block_geometry (shape_of api fix) nblocks overlap) (\<lambda>g.
       let blocksize = g_blocksize g;
           overlaps = g_overlaps g;
           fix_p = np_pad dk fix (g_pads g);
           mov_p = np_pad dk mov (g_pads g);
           masks = (case fix_mask of None \<Rightarrow> [] | Some m \<Rightarrow> [np_pad dk m (g_pads g)])
                   @ (case mov_mask of None \<Rightarrow> [] | Some m \<Rightarrow> [np_pad dk m (g_pads g)])
       in on_success (chunk_grid dk fix_p blocksize) (\<lambda>grid.
          on_success (chunk_grid dk mov_p blocksize) (\<lambda>_.
          on_success (collect (map (\<lambda>m. chunk_grid dk m blocksize) masks)) (\<lambda>_.
          on_success
            (collect
               (map (\<lambda>idx.
                       on_success
                         (single_affine_align api kwargs blocksize overlaps fix_spacing
                            mov_spacing
                            (overlap_block dk fix_p blocksize overlaps idx)
                            (overlap_block dk mov_p blocksize overlaps idx)
                            (if 0 < length masks
                             then Some (overlap_block dk (masks ! 0) blocksize overlaps idx)
                             else None)
                            (if 1 < length masks
                             then Some (overlap_block dk (masks ! 1) blocksize overlaps idx)
                             else None)
                            idx)
                         (\<lambda>a. Inr (idx, a)))
                  (product_lists (map (\<lambda>n. [0..<n]) grid))))
            (\<lambda>affines.
               Inr (affines,
                    local_affines_to_field dk (shape_of api fix) fix_spacing affines blocksize
                      overlaps))))))"

subsection \<open>\<^verbatim>\<open>distributed_twist_align\<close>\<close>

text \<open>
  A displacement field is the flat list of its components; a transform in a transform list
  is a matrix or a field.
\<close>

type_synonym field = "real list"

datatype tform = Matrix mat | Field field

text \<open>
  What the model takes from the rest of the package:
  \<^item> \<open>piecewise\<close>: \<^verbatim>\<open>distributed_piecewise_affine_align(fix, current_moving, fix_spacing,
    fix_spacing, nblocks=nblocks, fix_mask=fix_mask, mov_mask=current_moving_mask,
    **instance_kwargs)[1]\<close>, as a function of the moving image, its mask, the block counts
    and the keyword arguments;
  \<^item> \<open>compose_fields\<close>: \<^verbatim>\<open>compose_displacement_vector_fields(a, b, fix_spacing)\<close>;
  \<^item> \<open>apply_transform\<close>: \<^verbatim>\<open>apply_transform(fix, image, fix_spacing, mov_spacing,
    transform_list=...)\<close>;
  \<^item> \<open>binarize\<close>: \<^verbatim>\<open>(mask > 0).astype(np.uint8)\<close>;
  \<^item> \<open>merge_kwargs\<close>: \<^verbatim>\<open>{**kwargs, **parameter_schedule[counter]}\<close>.
\<close>

record ('img, 'kw) twist_api =
  piecewise :: "'img \<Rightarrow> 'img option \<Rightarrow> int list \<Rightarrow> 'kw \<Rightarrow> failure + field"
  compose_fields :: "field \<Rightarrow> field \<Rightarrow> field"
  apply_transform :: "'img \<Rightarrow> tform list \<Rightarrow> 'img"
  binarize :: "'img \<Rightarrow> 'img"
  merge_kwargs :: "'kw \<Rightarrow> 'kw \<Rightarrow> 'kw"

text \<open>
  The loop variables of \<^verbatim>\<open>distributed_twist_align\<close> and the files written with
  \<^verbatim>\<open>np.save\<close> (outer level, deform, image, mask).
\<close>

record 'img twist_state =
  t_counter :: nat
  t_deform :: field
  t_current_moving :: 'img
  t_current_moving_mask :: "'img option"
  t_saved :: "(nat \<times> field \<times> 'img \<times> 'img option) list"

text \<open>\<^verbatim>\<open>ddd += field\<close>: the shapes must agree.\<close>

definition add_field :: "field \<Rightarrow> field \<Rightarrow> failure + field" where
  "add_field ddd f =
     (if length f = length ddd then Inr (map (\<lambda>(a, b). a + b) (zip ddd f)) else Inl ValueError)"

text \<open>
  The loop over the inner levels: the keyword arguments of the instance, the piecewise
  alignment against the current moving image, the sum of the fields and the counter. The
  thirty seconds of \<^verbatim>\<open>time.sleep\<close> before each alignment are not modelled.
\<close>

fun inner_levels ::
  "('img, 'kw) twist_api \<Rightarrow> 'kw \<Rightarrow> 'kw list option \<Rightarrow> 'img \<Rightarrow> 'img option \<Rightarrow> int list list \<Rightarrow>
   field \<times> nat \<Rightarrow> failure + field \<times> nat" where
  "inner_levels tw kwargs parameter_schedule cm cmm [] acc = Inr acc"
| "inner_levels tw kwargs parameter_schedule cm cmm (nblocks # rest) (ddd, counter) =
     on_success
       (case parameter_schedule of
          None \<Rightarrow> Inr kwargs
        | Some ps \<Rightarrow>
            if counter < length ps then Inr (merge_kwargs tw kwargs (ps ! counter))
            else Inl IndexError)
       (\<lambda>instance_kwargs.
     on_success (piecewise tw cm cmm nblocks instance_kwargs) (\<lambda>f.
     on_success (add_field ddd f) (\<lambda>ddd'.
       inner_levels tw kwargs parameter_schedule cm cmm rest (ddd', counter + 1))))"

text \<open>
  \<^verbatim>\<open>ddd = ddd / len(inner_list)\<close>. With an empty inner list numpy divides zero by
  zero.
\<close>

definition take_mean :: "field \<Rightarrow> nat \<Rightarrow> failure + field" where
  "take_mean ddd n = (if n = 0 then Inl NonFinite else Inr (map (\<lambda>v. v / real n) ddd))"

text \<open>
  One outer level: the mean of the inner fields, the composition with the deform
  \<^verbatim>\<open>if outer_level > 0\<close>, the moving image and mask warped anew from the originals, and
  the intermediates.
\<close>

definition outer_level_step ::
  "('img, 'kw) twist_api \<Rightarrow> 'kw \<Rightarrow> 'kw list option \<Rightarrow> tform list option \<Rightarrow> 'img \<Rightarrow>
   'img option \<Rightarrow> bool \<Rightarrow> nat \<Rightarrow> int list list \<Rightarrow> 'img twist_state \<Rightarrow> failure + 'img twist_state" where
  "outer_level_step tw kwargs parameter_schedule initial_transform_list mov mov_mask
       save_intermediates outer_level inner_list st =
     on_success
       (inner_levels tw kwargs parameter_schedule (t_current_moving st)
          (t_current_moving_mask st) inner_list
          (replicate (length (t_deform st)) 0, t_counter st))
       (\<lambda>(ddd_sum, counter).
     on_success (take_mean ddd_sum (length inner_list)) (\<lambda>ddd.
       let deform = (if outer_level > 0 then compose_fields tw (t_deform st) ddd
                     else t_deform st);
           transform_list =
             (case initial_transform_list of
                None \<Rightarrow> [Field deform]
              | Some its \<Rightarrow> its @ [Field deform]);
           current_moving = apply_transform tw mov transform_list;
           current_moving_mask =
             (case mov_mask of
                None \<Rightarrow> t_current_moving_mask st
              | Some m \<Rightarrow> Some (binarize tw (apply_transform tw m transform_list)))
       in Inr \<lparr>t_counter = counter, t_deform = deform, t_current_moving = current_moving,
               t_current_moving_mask = current_moving_mask,
               t_saved =
                 (if save_intermediates
                  then t_saved st @
                       [(outer_level, deform, current_moving,
                         (case mov_mask of None \<Rightarrow> None | Some _ \<Rightarrow> current_moving_mask))]
                  else t_saved st)\<rparr>))"

text \<open>The loop over \<^verbatim>\<open>enumerate(block_schedule)\<close>.\<close>

fun outer_levels ::
  "('img, 'kw) twist_api \<Rightarrow> 'kw \<Rightarrow> 'kw list option \<Rightarrow> tform list option \<Rightarrow> 'img \<Rightarrow>
   'img option \<Rightarrow> bool \<Rightarrow> nat \<Rightarrow> int list list list \<Rightarrow> 'img twist_state \<Rightarrow>
   failure + 'img twist_state" where
  "outer_levels tw kwargs parameter_schedule initial_transform_list mov mov_mask
       save_intermediates outer_level [] st = Inr st"
| "outer_levels tw kwargs parameter_schedule initial_transform_list mov mov_mask
       save_intermediates outer_level (inner_list # rest) st =
     on_success
       (outer_level_step tw kwargs parameter_schedule initial_transform_list mov mov_mask
          save_intermediates outer_level inner_list st)
       (outer_levels tw kwargs parameter_schedule initial_transform_list mov mov_mask
          save_intermediates (outer_level + 1) rest)"

text \<open>
  \<^verbatim>\<open># set working copies of moving data\<close> and
  \<^verbatim>\<open>deform = np.zeros(fix.shape + (3,), dtype=np.float32)\<close>.
\<close>

definition initial_twist_state ::
  "('img, 'kw) twist_api \<Rightarrow> nat list \<Rightarrow> tform list option \<Rightarrow> 'img \<Rightarrow> 'img option \<Rightarrow>
   'img twist_state" where
  "initial_twist_state tw fix_shape initial_transform_list mov mov_mask =
     \<lparr>t_counter = 0,
      t_deform = replicate (prod_list fix_shape * 3) 0,
      t_current_moving =
        (case initial_transform_list of None \<Rightarrow> mov | Some its \<Rightarrow> apply_transform tw mov its),
      t_current_moving_mask =
        (case initial_transform_list of
           None \<Rightarrow> mov_mask
         | Some its \<Rightarrow> map_option (\<lambda>m. binarize tw (apply_transform tw m its)) mov_mask),
      t_saved = []\<rparr>"

text \<open>\<^verbatim>\<open>distributed_twist_align\<close> returns the deform after the last outer level.\<close>

definition distributed_twist_align ::
  "('img, 'kw) twist_api \<Rightarrow> nat list \<Rightarrow> 'img \<Rightarrow> int list list list \<Rightarrow> 'kw list option \<Rightarrow>
   tform list option \<Rightarrow> 'img option \<Rightarrow> bool \<Rightarrow> 'kw \<Rightarrow> failure + field" where
  "distributed_twist_align tw fix_shape mov block_schedule parameter_schedule
       initial_transform_list mov_mask save_intermediates kwargs =
     on_success
       (outer_levels tw kwargs parameter_schedule initial_transform_list mov mov_mask
          save_intermediates 0 block_schedule
          (initial_twist_state tw fix_shape initial_transform_list mov mov_mask))
       (\<lambda>st. Inr (t_deform st))"

subsection \<open>\<^verbatim>\<open>distributed_piecewise_exhaustive_translation\<close>\<close>

text \<open>
  The function indexes the axes 0, 1 and 2 of its arguments: volumes are three-dimensional,
  a voxel is a triple of indices, and the per-axis parameters (stride, radii, step counts
  and sizes) are triples of natural numbers.
\<close>

type_synonym voxel = "int \<times> int \<times> int"

type_synonym vec3 = "real \<times> real \<times> real"

type_synonym volume = "voxel \<Rightarrow> real"

type_synonym dvf = "voxel \<Rightarrow> vec3"

text \<open>
  The indices that the Python slice \<^verbatim>\<open>start:stop:step\<close> selects on an axis of length
  \<open>n\<close> (\<^verbatim>\<open>range(*slice(start, stop, step).indices(n))\<close>): a negative bound counts from
  the end, bounds are clamped to the axis, and a step of zero raises.
\<close>

definition clamp_bound :: "nat \<Rightarrow> int \<Rightarrow> int \<Rightarrow> int \<Rightarrow> int" where
  "clamp_bound n lower upper i = (if i < 0 then max (i + int n) lower else min i upper)"

text \<open>\<^verbatim>\<open>range(a, b, step)\<close> for a step that is not zero.\<close>

definition py_range :: "int \<Rightarrow> int \<Rightarrow> int \<Rightarrow> int list" where
  "py_range a b step =
     (if step > 0
      then (if a < b then map (\<lambda>k. a + int k * step) [0..<nat ((b - a - 1) div step + 1)]
            else [])
      else (if b < a then map (\<lambda>k. a + int k * step) [0..<nat ((a - b - 1) div (- step) + 1)]
            else []))"

definition slice_indices :: "nat \<Rightarrow> int \<Rightarrow> int \<Rightarrow> int \<Rightarrow> failure + int list" where
  "slice_indices n start stop step =
     (if step = 0 then Inl ValueError
      else
        let lower = (if step > 0 then 0 else - 1);
            upper = (if step > 0 then int n else int n - 1)
        in Inr (py_range (clamp_bound n lower upper start) (clamp_bound n lower upper stop)
                  step))"

text \<open>
  \<^verbatim>\<open>search_radius = [q+x*y for q, x, y in zip(query_radius, num_steps, step_sizes)]\<close>
\<close>

definition search_radius_of :: "nat \<times> nat \<times> nat \<Rightarrow> nat \<times> nat \<times> nat \<Rightarrow> nat \<times> nat \<times> nat \<Rightarrow> nat \<times> nat \<times> nat" where
  "search_radius_of query_radius num_steps step_sizes =
     (case (query_radius, num_steps, step_sizes) of
        ((q0, q1, q2), (x0, x1, x2), (y0, y1, y2)) \<Rightarrow> (q0 + x0 * y0, q1 + x1 * y1, q2 + x2 * y2))"

text \<open>\<^verbatim>\<open>limit = [x if x > y else y for x, y in zip(search_radius, stride)]\<close>\<close>

definition limit_of :: "nat \<times> nat \<times> nat \<Rightarrow> nat \<times> nat \<times> nat \<Rightarrow> nat \<times> nat \<times> nat" where
  "limit_of search_radius stride =
     (case (search_radius, stride) of
        ((x0, x1, x2), (y0, y1, y2)) \<Rightarrow>
          (if x0 > y0 then x0 else y0, if x1 > y1 then x1 else y1, if x2 > y2 then x2 else y2))"

text \<open>
  \<^verbatim>\<open>samples[limit[0]:-limit[0]:stride[0], ...] = 1\<close>, the product with the mask when there
  is one, and \<^verbatim>\<open>np.nonzero\<close>: the sample centres in row-major order.
\<close>

definition axis_samples :: "nat \<Rightarrow> nat \<Rightarrow> nat \<Rightarrow> failure + int list" where
  "axis_samples n limit stride = slice_indices n (int limit) (- int limit) (int stride)"

definition sample_points ::
  "nat \<times> nat \<times> nat \<Rightarrow> nat \<times> nat \<times> nat \<Rightarrow> nat \<times> nat \<times> nat \<Rightarrow> (voxel \<Rightarrow> bool) option \<Rightarrow>
   failure + voxel list" where
  "sample_points shape limit stride msk =
     (case (shape, limit, stride) of
        ((n0, n1, n2), (l0, l1, l2), (s0, s1, s2)) \<Rightarrow>
          on_success (axis_samples n0 l0 s0) (\<lambda>xs.
          on_success (axis_samples n1 l1 s1) (\<lambda>ys.
          on_success (axis_samples n2 l2 s2) (\<lambda>zs.
            Inr (filter (\<lambda>c. case msk of None \<Rightarrow> True | Some m \<Rightarrow> m c)
                   (List.product xs (List.product ys zs)))))))"

text \<open>
  The indices read on one axis by \<^verbatim>\<open>fix[x-r:x+r+1, ...]\<close> when the result is assigned
  to a slot of \<open>2 r + 1\<close> entries: the lengths must agree, except that a single entry is
  repeated; anything else raises.
\<close>

definition block_axis :: "nat \<Rightarrow> int \<Rightarrow> nat \<Rightarrow> failure + int list" where
  "block_axis n c r =
     on_success (slice_indices n (c - int r) (c + int r + 1) 1) (\<lambda>ixs.
       if length ixs = 2 * r + 1 then Inr ixs
       else if length ixs = 1 then Inr (replicate (2 * r + 1) (hd ixs))
       else Inl ValueError)"

definition read_block ::
  "nat \<times> nat \<times> nat \<Rightarrow> volume \<Rightarrow> voxel \<Rightarrow> nat \<times> nat \<times> nat \<Rightarrow> failure + real list list list" where
  "read_block shape vol c radius =
     (case (shape, c, radius) of
        ((n0, n1, n2), (x, y, z), (r0, r1, r2)) \<Rightarrow>
          on_success (block_axis n0 x r0) (\<lambda>xs.
          on_success (block_axis n1 y r1) (\<lambda>ys.
          on_success (block_axis n2 z r2) (\<lambda>zs.
            Inr (map (\<lambda>i. map (\<lambda>j. map (\<lambda>k. vol (i, j, k)) zs) ys) xs)))))"

text \<open>\<^verbatim>\<open># get context for all sample points\<close>: the fixed and the moving block of a sample.\<close>

definition gather_blocks ::
  "nat \<times> nat \<times> nat \<Rightarrow> volume \<Rightarrow> nat \<times> nat \<times> nat \<Rightarrow> volume \<Rightarrow> nat \<times> nat \<times> nat \<Rightarrow>
   nat \<times> nat \<times> nat \<Rightarrow> voxel \<Rightarrow> failure + (real list list list \<times> real list list list)" where
  "gather_blocks fix_shape fix mov_shape mov search_radius query_radius c =
     on_success (read_block fix_shape fix c search_radius) (\<lambda>fb.
     on_success (read_block mov_shape mov c query_radius) (\<lambda>mb. Inr (fb, mb)))"

text \<open>
  \<^verbatim>\<open>weights = np.pad([[[1.]]], [(s, s) for s in stride], mode='linear_ramp')\<close>: along
  an axis with stride \<open>s\<close> the entry at position \<open>i\<close> of \<open>0, \<dots>, 2 s\<close> is
  \<open>1 - |i - s| / s\<close>, and the axes are padded one after the other, so the weight of a
  position is the product over the axes.
\<close>

definition ramp :: "nat \<Rightarrow> int \<Rightarrow> real" where
  "ramp s i = (if s = 0 then 1 else 1 - \<bar>real_of_int (i - int s)\<bar> / real s)"

definition weights :: "nat \<times> nat \<times> nat \<Rightarrow> voxel \<Rightarrow> real" where
  "weights stride p =
     (case (stride, p) of ((s0, s1, s2), (i, j, k)) \<Rightarrow> ramp s0 i * ramp s1 j * ramp s2 k)"

definition vadd :: "vec3 \<Rightarrow> vec3 \<Rightarrow> vec3" where
  "vadd u v = (case (u, v) of ((a, b, c), (d, e, f)) \<Rightarrow> (a + d, b + e, c + f))"

definition vscale :: "real \<Rightarrow> vec3 \<Rightarrow> vec3" where
  "vscale w v = (case v of (a, b, c) \<Rightarrow> (w * a, w * b, w * c))"

text \<open>
  The indices that \<^verbatim>\<open>slice(x-s, x+s+1)\<close> selects for the in-place addition of the
  \<open>2 s + 1\<close> weights: any other number of indices raises.
\<close>

definition window_axis :: "nat \<Rightarrow> int \<Rightarrow> nat \<Rightarrow> failure + int list" where
  "window_axis n c s =
     on_success (slice_indices n (c - int s) (c + int s + 1) 1) (\<lambda>ixs.
       if length ixs = 2 * s + 1 then Inr ixs else Inl ValueError)"

text \<open>\<^verbatim>\<open>dvf[tuple(s)] += t * weights[..., None]\<close> for one sample.\<close>

definition add_window ::
  "nat \<times> nat \<times> nat \<Rightarrow> nat \<times> nat \<times> nat \<Rightarrow> dvf \<Rightarrow> vec3 \<times> voxel \<Rightarrow> failure + dvf" where
  "add_window shape stride field tc =
     (case (shape, stride, tc) of
        ((n0, n1, n2), (s0, s1, s2), (t, (x, y, z))) \<Rightarrow>
          on_success (window_axis n0 x s0) (\<lambda>xs.
          on_success (window_axis n1 y s1) (\<lambda>ys.
          on_success (window_axis n2 z s2) (\<lambda>zs.
            Inr (\<lambda>(a, b, c).
                   if a \<in> set xs \<and> b \<in> set ys \<and> c \<in> set zs
                   then vadd (field (a, b, c))
                          (vscale (weights stride (a - hd xs, b - hd ys, c - hd zs)) t)
                   else field (a, b, c))))))"

text \<open>
  \<^verbatim>\<open># reformat to displacement vector field\<close>: the loop over the translations and the
  sample centres, from the zero field.
\<close>

fun stitch_from ::
  "nat \<times> nat \<times> nat \<Rightarrow> nat \<times> nat \<times> nat \<Rightarrow> (vec3 \<times> voxel) list \<Rightarrow> dvf \<Rightarrow> failure + dvf" where
  "stitch_from shape stride [] field = Inr field"
| "stitch_from shape stride (tc # rest) field =
     on_success (add_window shape stride field tc) (stitch_from shape stride rest)"

definition stitch ::
  "nat \<times> nat \<times> nat \<Rightarrow> nat \<times> nat \<times> nat \<Rightarrow> vec3 list \<Rightarrow> voxel list \<Rightarrow> failure + dvf" where
  "stitch shape stride translations samples =
     stitch_from shape stride (zip translations samples) (\<lambda>_. (0, 0, 0))"

text \<open>
  What the model takes from the rest:
  \<^item> \<open>exhaustive\<close>: the closure \<^verbatim>\<open>wrapped_exhaustive_translation\<close> on a pair of blocks,
    run by dask;
  \<^item> \<open>gaussian\<close>: the three calls of \<^verbatim>\<open>gaussian_filter\<close> with
    \<^verbatim>\<open>smooth_sigma/fix_spacing\<close>.
\<close>

record translation_api =
  exhaustive :: "real list list list \<Rightarrow> real list list list \<Rightarrow> failure + vec3"
  gaussian :: "dvf \<Rightarrow> real \<Rightarrow> dvf"

definition distributed_piecewise_exhaustive_translation ::
  "translation_api \<Rightarrow> nat \<times> nat \<times> nat \<Rightarrow> volume \<Rightarrow> nat \<times> nat \<times> nat \<Rightarrow> volume \<Rightarrow>
   nat \<times> nat \<times> nat \<Rightarrow> nat \<times> nat \<times> nat \<Rightarrow> nat \<times> nat \<times> nat \<Rightarrow> nat \<times> nat \<times> nat \<Rightarrow> real \<Rightarrow>
   (voxel \<Rightarrow> bool) option \<Rightarrow> failure + dvf" where
  "distributed_piecewise_exhaustive_translation ex fix_shape fix mov_shape mov stride
       query_radius num_steps step_sizes smooth_sigma msk =
     (let search_radius = search_radius_of query_radius num_steps step_sizes;
          limit = limit_of search_radius stride
      in on_success (sample_points fix_shape limit stride msk) (\<lambda>samples.
         on_success
           (collect (map (gather_blocks fix_shape fix mov_shape mov search_radius query_radius)
                       samples))
           (\<lambda>blocks.
         on_success (collect (map (\<lambda>(fb, mb). exhaustive ex fb mb) blocks)) (\<lambda>translations.
         on_success (stitch fix_shape stride translations samples) (\<lambda>field.
           Inr (if smooth_sigma > 0 then gaussian ex field smooth_sigma else field))))))"

subsection \<open>The origin correction in the words of the spec\<close>

text \<open>
  The spec corrects a block's affine \<open>A\<close> to \<open>T_origin \<cdot> A \<cdot> T_origin\<inverse>\<close>, where
  \<open>T_origin\<close> translates by the block's physical-space origin
  \<open>max(0, index \<times> blocksize - overlap) \<times> spacing\<close>. These two definitions follow the spec:
  the homogeneous matrix of a translation and one coordinate of that origin.
\<close>

definition translation4 :: "real \<Rightarrow> real \<Rightarrow> real \<Rightarrow> mat" where
  "translation4 x y z = [[1, 0, 0, x], [0, 1, 0, y], [0, 0, 1, z], [0, 0, 0, 1]]"

definition origin_coordinate :: "nat \<Rightarrow> int \<Rightarrow> int \<Rightarrow> real \<Rightarrow> real" where
  "origin_coordinate idx blocksize overlap spacing =
     real_of_int (max 0 (int idx * blocksize - overlap)) * spacing"

subsection \<open>Slices inside an axis and the contribution of a sample\<close>

text \<open>
  The slice \<^verbatim>\<open>c-r : c+r+1\<close> lies within an axis of length \<open>n\<close>: this is what "at least
  a radius \<open>r\<close> away from both edges" means for a centre \<open>c\<close>.
\<close>

definition inside :: "nat \<Rightarrow> int \<Rightarrow> nat \<Rightarrow> bool" where
  "inside n c r \<longleftrightarrow> 0 \<le> c - int r \<and> c + int r + 1 \<le> int n"

definition inside3 :: "nat \<times> nat \<times> nat \<Rightarrow> voxel \<Rightarrow> nat \<times> nat \<times> nat \<Rightarrow> bool" where
  "inside3 shape c radius =
     (case (shape, c, radius) of
        ((n0, n1, n2), (x, y, z), (r0, r1, r2)) \<Rightarrow>
          inside n0 x r0 \<and> inside n1 y r1 \<and> inside n2 z r2)"

text \<open>
  The spec's linear ramp as a function of the distance \<open>d\<close> from the sample centre: 1 at the
  centre, 0 at the edge of the window of radius \<open>s\<close>.
\<close>

definition ramp_at :: "nat \<Rightarrow> int \<Rightarrow> real" where
  "ramp_at s d = (if s = 0 then 1 else 1 - real_of_int \<bar>d\<bar> / real s)"

text \<open>
  What one sample with translation \<open>t\<close> at centre \<open>(x, y, z)\<close> adds at the voxel \<open>p\<close>,
  in the words of the spec: \<open>t\<close> times the ramp weight inside the window of radius stride,
  nothing outside.
\<close>

definition window_contribution :: "nat \<times> nat \<times> nat \<Rightarrow> vec3 \<times> voxel \<Rightarrow> voxel \<Rightarrow> vec3" where
  "window_contribution stride tc p =
     (case (stride, tc, p) of
        ((s0, s1, s2), (t, (x, y, z)), (a, b, c)) \<Rightarrow>
          if \<bar>a - x\<bar> \<le> int s0 \<and> \<bar>b - y\<bar> \<le> int s1 \<and> \<bar>c - z\<bar> \<le> int s2
          then vscale (ramp_at s0 (a - x) * ramp_at s1 (b - y) * ramp_at s2 (c - z)) t
          else (0, 0, 0))"

subsection \<open>A concrete library for the examples\<close>

text \<open>
  In the examples an image is its shape together with its voxels read as a binary mask, a
  SimpleITK image is the same pair, the Jaccard index is computed from the voxels, the
  metric is a function of the registration object and the optimiser returns a fixed
  transform. For the rotation of a rotation vector the examples take Rodrigues' formula.
\<close>

type_synonym demo_image = "nat list \<times> bool list"

definition rodrigues :: "real list \<Rightarrow> real list list" where
  "rodrigues v =
     (let x = v ! 0; y = v ! 1; z = v ! 2; th = sqrt (x * x + y * y + z * z)
      in if th = 0 then eye3
         else
           let a = sin th / th; b = (1 - cos th) / (th * th)
           in [[1 - b * (y * y + z * z), b * x * y - a * z, b * x * z + a * y],
               [b * x * y + a * z, 1 - b * (x * x + z * z), b * y * z - a * x],
               [b * x * z - a * y, b * y * z + a * x, 1 - b * (x * x + y * y)]])"

definition demo_library ::
  "((demo_image, unit) irm \<Rightarrow> failure + real) \<Rightarrow> failure + transform \<Rightarrow>
   (demo_image, demo_image, unit) library" where
  "demo_library metric optimised =
     \<lparr>shape_of = fst,
      subsample = (\<lambda>img ss. img),
      big_endian = (\<lambda>img. False),
      get_image = (\<lambda>img spacing origin. img),
      cast_float32 = (\<lambda>img. img),
      euler_accepts = (\<lambda>m. True),
      centered_initializer = (\<lambda>f m t. t),
      metric_evaluate = (\<lambda>r f m. metric r),
      execute = (\<lambda>r f m. optimised),
      jaccard_index = (\<lambda>a b. jaccard_of_voxels (snd a) (snd b))\<rparr>"

text \<open>
  The arrays of the examples are chunked as dask does for positive chunk sizes that match
  the number of axes; the stitched field is not computed.
\<close>

definition demo_dask :: "(demo_image, unit) dask_api" where
  "demo_dask =
     \<lparr>np_pad = (\<lambda>img pads. (map nat (padded_shape (fst img) pads), snd img)),
      chunk_grid =
        (\<lambda>img chunks.
           if length chunks = length (fst img) \<and> list_all (\<lambda>b. 0 < b) chunks
           then Inr (map (\<lambda>(n, b). n div nat b) (zip (fst img) chunks))
           else Inl ValueError),
      overlap_block = (\<lambda>img chunks depth idx. (map nat chunks, [])),
      local_affines_to_field = (\<lambda>shape spacing affines blocksize overlaps. ())\<rparr>"

text \<open>Keyword arguments that leave every option of \<^verbatim>\<open>affine_align\<close> at its default.\<close>

definition default_kwargs :: "demo_image \<Rightarrow> (demo_image, unit) align_args" where
  "default_kwargs img =
     \<lparr>a_fix = img, a_mov = img, a_fix_spacing = [1, 1, 1], a_mov_spacing = [1, 1, 1],
      a_rigid = False, a_initial_transform = None, a_initialize_with_centering = False,
      a_alignment_spacing = None, a_fix_mask = None, a_mov_mask = None,
      a_fix_origin = None, a_mov_origin = None, a_jaccard_filter_threshold = None,
      a_default = eye4, a_kwargs = ()\<rparr>"

text \<open>
  A zero-motion pair: the optimiser stays at the identity and the metric does not change.
\<close>

definition still_library :: "(demo_image, demo_image, unit) library" where
  "still_library = demo_library (\<lambda>r. Inr 1) (Inr (AffineTransform eye3 [0, 0, 0]))"

text \<open>
  A pair for which the optimiser finds a sheared and shifted transform, at which the metric
  is 0; at any transform without a shift it is 1.
\<close>

definition shear_metric :: "(demo_image, unit) irm \<Rightarrow> failure + real" where
  "shear_metric r =
     (case irm_transform r of
        None \<Rightarrow> Inr 1
      | Some t \<Rightarrow> Inr (if GetTranslation t = [0, 0, 0] then 1 else 0))"

definition shear_library :: "(demo_image, demo_image, unit) library" where
  "shear_library =
     demo_library shear_metric (Inr (AffineTransform [[1, 2, 0], [0, 1, 0], [0, 0, 1]] [1, 0, 0]))"

text \<open>A library in which every metric evaluation and every optimisation raises.\<close>

definition failing_library :: "(demo_image, demo_image, unit) library" where
  "failing_library = demo_library (\<lambda>r. Inl ITKException) (Inl ITKException)"

text \<open>
  A search over a 4x4x4 pair with the given number of random candidates and no refinement;
  only the translation is sampled, with amplitude 1. The draws are all \<open>1/2\<close>, which the
  sampling maps to 0.
\<close>

definition demo_search :: "nat \<Rightarrow> (demo_image, unit) search_args" where
  "demo_search n =
     \<lparr>s_fix = ([4, 4, 4], []), s_mov = ([4, 4, 4], []),
      s_fix_spacing = [1, 1, 1], s_mov_spacing = [1, 1, 1],
      s_max_translation = 1, s_max_rotation = 0, s_max_scale = 1, s_max_shear = 0,
      s_random_iterations = n, s_affine_align_best = 0, s_alignment_spacing = None,
      s_fix_mask = None, s_mov_mask = None, s_fix_origin = None, s_mov_origin = None,
      s_jaccard_filter_threshold = None, s_kwargs = ()\<rparr>"

definition demo_draws :: draws where
  "demo_draws =
     \<lparr>draw_translation = (\<lambda>k c. 1 / 2), draw_rotation = (\<lambda>k c. 1 / 2),
      draw_scale = (\<lambda>k c. 1 / 2), draw_shear = (\<lambda>k c. 1 / 2)\<rparr>"

text \<open>The context that \<^verbatim>\<open>prepare_search\<close> builds for \<open>demo_search\<close>.\<close>

definition demo_context :: "(demo_image, demo_image, unit) search_context" where
  "demo_context =
     \<lparr>c_irm = configure_irm (), c_fix = ([4, 4, 4], []), c_mov = ([4, 4, 4], []),
      c_fix_spacing = [1, 1, 1], c_mov_spacing = [1, 1, 1],
      c_fix_mask = None, c_mov_mask = None,
      c_fix_sitk = ([4, 4, 4], []), c_mov_sitk = ([4, 4, 4], [])\<rparr>"

text \<open>
  A twist alignment in which every piecewise alignment finds the same constant displacement
  \<open>(1, 2, 3)\<close> on a volume of a single voxel. Composing two constant fields adds them;
  warping and binarising leave the one-voxel image as it is.
\<close>

definition demo_twist :: "(unit, unit) twist_api" where
  "demo_twist =
     \<lparr>piecewise = (\<lambda>cm cmm nblocks kw. Inr [1, 2, 3]),
      compose_fields = (\<lambda>a b. map (\<lambda>(u, v). u + v) (zip a b)),
      apply_transform = (\<lambda>img ts. img),
      binarize = (\<lambda>img. img),
      merge_kwargs = (\<lambda>kwargs instance. instance)\<rparr>"

text \<open>
  A translation search in which every block pair gives the translation \<open>(1, 2, 3)\<close>; the
  smoothing is not computed.
\<close>

definition demo_translation :: translation_api where
  "demo_translation = \<lparr>exhaustive = (\<lambda>fb mb. Inr (1, 2, 3)), gaussian = (\<lambda>field sigma. field)\<rparr>"

section \<open>Properties\<close>

subsection \<open>Block geometry\<close>

lemma astype_int16_id: "- 32768 \<le> k \<Longrightarrow> k \<le> 32767 \<Longrightarrow> astype_int16 k = k"
  unfolding astype_int16_def by (simp add: int_word_sint)

lemma pad_axis_dvd:
  assumes "0 \<le> y" and "y = 0 \<longrightarrow> x = 0"
  shows "y dvd (fst (pad_axis x y) + int x + snd (pad_axis x y))"
proof (cases "y = 0")
  case True
  with assms show ?thesis by (simp add: pad_axis_def np_mod_def)
next
  case False
  with assms have pos: "0 < y" by simp
  show ?thesis
  proof (cases "int x mod y > 0")
    case True
    have "int x = y * (int x div y) + int x mod y" by simp
    then have "int x + (y - int x mod y) = y * (int x div y + 1)"
      by (simp add: algebra_simps)
    then have "y dvd int x + (y - int x mod y)" by (metis dvd_triv_left)
    then show ?thesis using True pos by (simp add: pad_axis_def np_mod_def)
  next
    case False
    with pos have "int x mod y = 0" by (smt (verit) pos_mod_sign)
    then show ?thesis using pos by (simp add: pad_axis_def np_mod_def dvd_eq_mod_eq_0)
  qed
qed

lemma ceil_quotient_bounds:
  assumes "0 < n"
  shows "0 \<le> \<lceil>real x / real_of_int n\<rceil>" and "\<lceil>real x / real_of_int n\<rceil> = 0 \<longrightarrow> x = 0"
proof -
  have nn: "0 \<le> real x / real_of_int n" using assms by simp
  then show "0 \<le> \<lceil>real x / real_of_int n\<rceil>"
    by (smt (verit) ceiling_le_zero zero_less_ceiling of_int_0 ceiling_mono ceiling_zero)
  show "\<lceil>real x / real_of_int n\<rceil> = 0 \<longrightarrow> x = 0"
  proof
    assume "\<lceil>real x / real_of_int n\<rceil> = 0"
    then have "\<lceil>real x / real_of_int n\<rceil> \<le> 0" by simp
    then have "real x / real_of_int n \<le> 0" by (simp only: ceiling_le_zero)
    with nn have "real x / real_of_int n = 0" by simp
    with assms show "x = 0" by simp
  qed
qed

text \<open>
  Where the conversions are exact the padding does what its comment asks for ("blocks must
  all be exact for stitch to work correctly"): for a volume shape with axes shorter than
  \<open>2^24\<close> and positive block counts of the same length such that
  \<open>\<lceil>shape / block_count\<rceil> \<le> 32767\<close> on every axis, the geometry is computed, the block
  size is that ceiling, and the padded shape is exactly divisible by the block size on every
  axis.
\<close>

lemma padded_shape_divisible:
  assumes len: "length nblocks = length shape"
    and ok: "\<forall>i<length shape.
               shape ! i < 16777216 \<and> 0 < nblocks ! i \<and>
               \<lceil>real (shape ! i) / real_of_int (nblocks ! i)\<rceil> \<le> 32767"
  shows "\<exists>g. block_geometry shape nblocks overlap = Inr g \<and>
             length (g_blocksize g) = length shape \<and>
             length (padded_shape shape (g_pads g)) = length shape \<and>
             (\<forall>i<length shape.
                g_blocksize g ! i = \<lceil>real (shape ! i) / real_of_int (nblocks ! i)\<rceil> \<and>
                g_blocksize g ! i dvd padded_shape shape (g_pads g) ! i)"
proof -
  let ?bs = "map (\<lambda>(x, n). astype_int16 \<lceil>astype_float32 x / real_of_int n\<rceil>)
               (zip shape nblocks)"
  have nz: "\<not> (\<exists>p\<in>set (zip shape nblocks). snd p = 0)"
  proof
    assume "\<exists>p\<in>set (zip shape nblocks). snd p = 0"
    then obtain p where p: "p \<in> set (zip shape nblocks)" "snd p = 0" by blast
    then obtain i where "i < length (zip shape nblocks)" "zip shape nblocks ! i = p"
      by (auto simp: in_set_conv_nth)
    with len ok p show False by auto
  qed
  have bs: "compute_blocksize shape nblocks = Inr ?bs"
    using len nz by (simp add: compute_blocksize_def broadcast_1d_def)
  have val: "?bs ! i = \<lceil>real (shape ! i) / real_of_int (nblocks ! i)\<rceil>"
    if "i < length shape" for i
  proof -
    have "0 \<le> \<lceil>real (shape ! i) / real_of_int (nblocks ! i)\<rceil>"
      using ceil_quotient_bounds(1) ok that by blast
    then show ?thesis using that len ok by (simp add: astype_int16_id astype_float32_def)
  qed
  have dvd: "?bs ! i dvd padded_shape shape (compute_pads shape ?bs) ! i"
    if "i < length shape" for i
  proof -
    have n: "0 < nblocks ! i" using ok that by blast
    have "padded_shape shape (compute_pads shape ?bs) ! i =
          fst (pad_axis (shape ! i) (?bs ! i)) + int (shape ! i)
          + snd (pad_axis (shape ! i) (?bs ! i))"
      using that len by (simp add: padded_shape_def compute_pads_def split_beta)
    moreover have "?bs ! i dvd fst (pad_axis (shape ! i) (?bs ! i)) + int (shape ! i)
                   + snd (pad_axis (shape ! i) (?bs ! i))"
      unfolding val [OF that] using ceil_quotient_bounds [OF n] by (intro pad_axis_dvd) auto
    ultimately show ?thesis by simp
  qed
  show ?thesis
    using bs val dvd len
    by (simp add: block_geometry_def padded_shape_def compute_pads_def)
qed

lemma padded_shape_divisible_example:
  "length [3, 3, 2 :: int] = length [10, 11, 7 :: nat] \<and>
   block_geometry [10, 11, 7] [3, 3, 2] (1 / 2) =
     Inr \<lparr>g_blocksize = [4, 4, 4], g_overlaps = [2, 2, 2], g_pads = [(0, 2), (0, 1), (0, 1)]\<rparr> \<and>
   padded_shape [10, 11, 7] [(0, 2), (0, 1), (0, 1)] = [12, 12, 8]"
  using padded_shape_divisible [of "[3, 3, 2]" "[10, 11, 7]" "1 / 2"]
  by (simp add: block_geometry_def compute_blocksize_def broadcast_1d_def astype_int16_def
      astype_float32_def compute_overlaps_def compute_pads_def pad_axis_def np_mod_def
      np_round_def padded_shape_def)

text \<open>
  C3. The partition invariant says that for every volume shape and block counts, with the
  block size \<open>\<lceil>shape / block_count\<rceil>\<close> and the trailing pads of the code, the padded
  shape is exactly divisible by the block size on every axis; the comment above the pads
  says the same ("blocks must all be exact for stitch to work correctly"). The code breaks
  it where the block size overflows: an axis of 40000 voxels in one block has the ceiling
  40000, which \<^verbatim>\<open>astype(np.int16)\<close> wraps to -25536; the remainder
  \<^verbatim>\<open>40000 % -25536\<close> is then not positive, nothing is padded, and 40000 is not a
  multiple of the block size.
\<close>

theorem partition_int16_overflow:
  "block_geometry [40000] [1] (1 / 2) =
     Inr \<lparr>g_blocksize = [- 25536], g_overlaps = [- 12768], g_pads = [(0, 0)]\<rparr> \<and>
   padded_shape [40000] [(0, 0)] = [40000] \<and>
   \<not> (- 25536 :: int) dvd 40000"
  by (simp add: block_geometry_def compute_blocksize_def broadcast_1d_def astype_int16_def
      astype_float32_def compute_overlaps_def compute_pads_def pad_axis_def np_mod_def
      np_round_def padded_shape_def)

subsection \<open>The length of the block-count tuple\<close>

lemma zip_replicate_same: "zip xs (replicate (length xs) n) = map (\<lambda>x. (x, n)) xs"
  by (induction xs) auto

lemma broadcast_single:
  "broadcast_1d xs [n] = broadcast_1d xs (replicate (length xs) n)"
  by (cases xs) (auto simp: broadcast_1d_def zip_replicate_same)

lemma block_geometry_single:
  "block_geometry shape [n] overlap = block_geometry shape (replicate (length shape) n) overlap"
  by (simp add: block_geometry_def compute_blocksize_def broadcast_single)

lemma block_geometry_mismatch:
  "length nblocks \<noteq> length shape \<Longrightarrow> length nblocks \<noteq> 1 \<Longrightarrow> length shape \<noteq> 1 \<Longrightarrow>
   block_geometry shape nblocks overlap = Inl ValueError"
  by (simp add: block_geometry_def compute_blocksize_def broadcast_1d_def)

text \<open>
  C8, as the code has it. The function has no check of its own; the only error for a
  block-count tuple of the wrong length is the broadcasting error of the division
  \<^verbatim>\<open>shape / nblocks\<close>. So the call raises \<^verbatim>\<open>ValueError\<close> whenever the length of
  \<^verbatim>\<open>nblocks\<close> differs from the dimensionality of the fixed volume and neither of the two
  is one, and a tuple with a single count is accepted: the call then does exactly what it
  does for that count repeated on every axis.
\<close>

theorem nblocks_length_mismatch:
  "(length nblocks \<noteq> length (shape_of api fix) \<and> length nblocks \<noteq> 1 \<and>
    length (shape_of api fix) \<noteq> 1 \<longrightarrow>
      distributed_piecewise_affine_align api dk fix mov fix_spacing mov_spacing nblocks overlap
        fix_mask mov_mask kwargs = Inl ValueError) \<and>
   distributed_piecewise_affine_align api dk fix mov fix_spacing mov_spacing [n] overlap
     fix_mask mov_mask kwargs =
   distributed_piecewise_affine_align api dk fix mov fix_spacing mov_spacing
     (replicate (length (shape_of api fix)) n) overlap fix_mask mov_mask kwargs"
  by (simp add: distributed_piecewise_affine_align_def block_geometry_single
      block_geometry_mismatch on_success_def)

theorem nblocks_length_mismatch_witness:
  "length [2, 2 :: int] \<noteq> length (shape_of still_library ([4, 4, 4], [])) \<and>
   distributed_piecewise_affine_align still_library demo_dask ([4, 4, 4], []) ([4, 4, 4], [])
     [1, 1, 1] [1, 1, 1] [2, 2] (1 / 2) None None (default_kwargs ([], [])) = Inl ValueError"
  using nblocks_length_mismatch [of "[2, 2]" still_library "([4, 4, 4], [])"
      demo_dask "([4, 4, 4], [])" "[1, 1, 1]" "[1, 1, 1]" "1 / 2" None None
      "default_kwargs ([], [])" 2]
  by (simp add: still_library_def demo_library_def)

text \<open>
  C8 as stated fails: on a volume of shape 4x4x4 the one-element tuple \<open>(2,)\<close> has the wrong
  length, and the call returns the affines of the 2x2x2 grid of blocks instead of raising.
\<close>

theorem single_block_count_counterexample:
  "length [2 :: int] \<noteq> length (shape_of still_library ([4, 4, 4], [])) \<and>
   distributed_piecewise_affine_align still_library demo_dask ([4, 4, 4], []) ([4, 4, 4], [])
     [1, 1, 1] [1, 1, 1] [2] (1 / 2) None None (default_kwargs ([], [])) =
   Inr ([([0, 0, 0], eye4), ([0, 0, 1], eye4), ([0, 1, 0], eye4), ([0, 1, 1], eye4),
         ([1, 0, 0], eye4), ([1, 0, 1], eye4), ([1, 1, 0], eye4), ([1, 1, 1], eye4)], ())"
  by code_simp

subsection \<open>The correction for the block origin\<close>

lemma matmul_translation_inverse:
  "matmul (translation4 x y z) (translation4 (- x) (- y) (- z)) = eye4"
  by (simp add: matmul_def translation4_def eye4_def)

lemma matmul_eye4_left: "matmul eye4 (translation4 x y z) = translation4 x y z"
  by (simp add: matmul_def translation4_def eye4_def)

lemma block_origin_3d:
  "block_origin [b0, b1, b2] [o0, o1, o2] [s0, s1, s2] [i0, i1, i2] =
     Inr [origin_coordinate i0 b0 o0 s0, origin_coordinate i1 b1 o1 s1,
          origin_coordinate i2 b2 o2 s2]"
  by (simp add: block_origin_def broadcast_1d_def on_success_def origin_coordinate_def
      mult.commute)

lemma correct_for_origin_3d:
  "correct_for_origin [x, y, z] a =
     Inr (matmul (translation4 x y z) (matmul a (translation4 (- x) (- y) (- z))))"
  by (simp add: correct_for_origin_def translation_matrix_def broadcast3_def on_success_def
      translation4_def)

text \<open>
  C2. For the block at chunk location \<open>(i0, i1, i2)\<close> of a three-dimensional volume, with
  \<open>R\<close> the result of the rigid alignment of the block pair and \<open>A\<close> the result of the affine
  alignment initialised with it, \<^verbatim>\<open>single_affine_align\<close> returns \<open>T \<cdot> A \<cdot> T\<inverse>\<close>, where
  \<open>T\<close> translates by \<open>max(0, idx \<times> blocksize - overlap) \<times> fix_spacing\<close> and \<open>T\<inverse>\<close> by its
  negative; the two are inverse to each other, and for \<open>A\<close> the identity the result is the
  identity.
\<close>

theorem block_transform_conjugation:
  assumes rigid:
      "fst (affine_align api
              (kwargs\<lparr>a_fix := fix, a_mov := mov, a_fix_spacing := [s0, s1, s2],
                      a_mov_spacing := mov_spacing, a_fix_mask := fm, a_mov_mask := mm,
                      a_rigid := True, a_initial_transform := None\<rparr>)) = Inr R"
    and affine:
      "fst (affine_align api
              (kwargs\<lparr>a_fix := fix, a_mov := mov, a_fix_spacing := [s0, s1, s2],
                      a_mov_spacing := mov_spacing, a_fix_mask := fm, a_mov_mask := mm,
                      a_rigid := False, a_initial_transform := Some R\<rparr>)) = Inr A"
  shows "(let x = origin_coordinate i0 b0 o0 s0;
              y = origin_coordinate i1 b1 o1 s1;
              z = origin_coordinate i2 b2 o2 s2;
              T = translation4 x y z;
              T_inv = translation4 (- x) (- y) (- z)
          in single_affine_align api kwargs [b0, b1, b2] [o0, o1, o2] [s0, s1, s2] mov_spacing
               fix mov fm mm [i0, i1, i2] = Inr (matmul T (matmul A T_inv)) \<and>
             matmul T T_inv = eye4 \<and> matmul T_inv T = eye4 \<and>
             matmul T (matmul eye4 T_inv) = eye4)"
proof -
  have inv2: "matmul (translation4 (- x) (- y) (- z)) (translation4 x y z) = eye4" for x y z
    using matmul_translation_inverse [of "- x" "- y" "- z"] by simp
  show ?thesis
    using rigid affine
    by (simp add: single_affine_align_def Let_def on_success_def block_origin_3d
        correct_for_origin_3d matmul_translation_inverse inv2 matmul_eye4_left)
qed

theorem block_transform_conjugation_witness:
  "fst (affine_align shear_library
          ((default_kwargs ([], []))
             \<lparr>a_fix := ([3, 3, 3], []), a_mov := ([3, 3, 3], []), a_fix_spacing := [1, 1, 1],
              a_mov_spacing := [1, 1, 1], a_fix_mask := None, a_mov_mask := None,
              a_rigid := True, a_initial_transform := None\<rparr>)) =
     Inr [[1, 0, 0, 0], [0, 1, 0, 0], [0, 2, 1, 1], [0, 0, 0, 1]] \<and>
   fst (affine_align shear_library
          ((default_kwargs ([], []))
             \<lparr>a_fix := ([3, 3, 3], []), a_mov := ([3, 3, 3], []), a_fix_spacing := [1, 1, 1],
              a_mov_spacing := [1, 1, 1], a_fix_mask := None, a_mov_mask := None,
              a_rigid := False,
              a_initial_transform := Some [[1, 0, 0, 0], [0, 1, 0, 0], [0, 2, 1, 1], [0, 0, 0, 1]]\<rparr>)) =
     Inr [[1, 0, 0, 0], [0, 1, 0, 0], [0, 2, 1, 1], [0, 0, 0, 1]] \<and>
   single_affine_align shear_library (default_kwargs ([], [])) [2, 2, 2] [1, 1, 1] [1, 1, 1]
     [1, 1, 1] ([3, 3, 3], []) ([3, 3, 3], []) None None [0, 1, 0] =
     Inr [[1, 0, 0, 0], [0, 1, 0, 0], [0, 2, 1, - 1], [0, 0, 0, 1]]"
proof -
  have h1: "fst (affine_align shear_library
          ((default_kwargs ([], []))
             \<lparr>a_fix := ([3, 3, 3], []), a_mov := ([3, 3, 3], []), a_fix_spacing := [1, 1, 1],
              a_mov_spacing := [1, 1, 1], a_fix_mask := None, a_mov_mask := None,
              a_rigid := True, a_initial_transform := None\<rparr>)) =
     Inr [[1, 0, 0, 0], [0, 1, 0, 0], [0, 2, 1, 1], [0, 0, 0, 1]]"
    by code_simp
  have h2: "fst (affine_align shear_library
          ((default_kwargs ([], []))
             \<lparr>a_fix := ([3, 3, 3], []), a_mov := ([3, 3, 3], []), a_fix_spacing := [1, 1, 1],
              a_mov_spacing := [1, 1, 1], a_fix_mask := None, a_mov_mask := None,
              a_rigid := False,
              a_initial_transform := Some [[1, 0, 0, 0], [0, 1, 0, 0], [0, 2, 1, 1], [0, 0, 0, 1]]\<rparr>)) =
     Inr [[1, 0, 0, 0], [0, 1, 0, 0], [0, 2, 1, 1], [0, 0, 0, 1]]"
    by code_simp
  show ?thesis
    using h1 h2 block_transform_conjugation [OF h1 h2, of 0 2 1 1 2 1 0 2 1]
    by (simp add: Let_def origin_coordinate_def translation4_def matmul_def)
qed

subsection \<open>The gates of \<^verbatim>\<open>affine_align\<close>\<close>

text \<open>
  C6. When the threshold and both masks are given and the Jaccard index of the masks is
  below the threshold, \<^verbatim>\<open>affine_align\<close> returns the default and makes no call of the
  metric or of the optimiser. The default is the argument \<^verbatim>\<open>default\<close>, except that an
  initial transform, when there is one, takes its place if \<^verbatim>\<open>default\<close> is the identity.
\<close>

theorem jaccard_gate:
  assumes "a_jaccard_filter_threshold args = Some t"
    and "a_fix_mask args = Some fm"
    and "a_mov_mask args = Some mm"
    and "jaccard_index api fm mm < t"
  shows "affine_align api args =
     (Inr (case a_initial_transform args of
             None \<Rightarrow> a_default args
           | Some it \<Rightarrow> if a_default args = eye4 then it else a_default args),
      [Print ''Masks failed jaccard_filter'', Print ''Returning default'']) \<and>
     ExecuteCall \<notin> set (snd (affine_align api args)) \<and>
     MetricEvaluateCall \<notin> set (snd (affine_align api args))"
  using assms
  by (simp add: affine_align_def masks_fail_jaccard_def jaccard_filter_def update_default_def
      Let_def)

theorem jaccard_gate_witness:
  "jaccard_index still_library ([2], [True, False]) ([2], [False, True]) < 1 / 10 \<and>
   affine_align still_library
     ((default_kwargs ([2], [True, True]))
        \<lparr>a_fix_mask := Some ([2], [True, False]), a_mov_mask := Some ([2], [False, True]),
         a_jaccard_filter_threshold := Some (1 / 10), a_default := translation4 1 2 3\<rparr>) =
     (Inr (translation4 1 2 3),
      [Print ''Masks failed jaccard_filter'', Print ''Returning default''])"
proof -
  have j: "jaccard_index still_library ([2], [True, False]) ([2], [False, True]) < 1 / 10"
    by (simp add: still_library_def demo_library_def jaccard_of_voxels_def)
  show ?thesis
    using j jaccard_gate [of "(default_kwargs ([2], [True, True]))
        \<lparr>a_fix_mask := Some ([2], [True, False]), a_mov_mask := Some ([2], [False, True]),
         a_jaccard_filter_threshold := Some (1 / 10), a_default := translation4 1 2 3\<rparr>"
        "1 / 10" "([2], [True, False])" "([2], [False, True])" still_library]
    by (simp add: default_kwargs_def)
qed

text \<open>
  C5. When the preparation raises nothing and the two metric evaluations and the
  optimisation return, \<^verbatim>\<open>affine_align\<close> returns the matrix of the optimised transform if
  the final metric value is less than the initial one, and otherwise the default, after
  printing the initial and the final value.
\<close>

theorem improvement_gate:
  assumes gate: "\<not> masks_fail_jaccard api (a_jaccard_filter_threshold args) (a_fix_mask args)
                     (a_mov_mask args)"
    and prep: "prepare_alignment api args = Inr (r, f, m)"
    and init: "metric_evaluate api r f m = Inr initial_metric_value"
    and exec: "execute api r f m = Inr optimised"
    and final: "metric_evaluate api (r\<lparr>irm_transform := Some optimised\<rparr>) f m
                = Inr final_metric_value"
  shows "affine_align api args =
     (if final_metric_value < initial_metric_value
      then (Inr (affine_transform_to_matrix
                   (if a_rigid args \<and> a_initialize_with_centering args then as_euler optimised
                    else optimised)),
            [MetricEvaluateCall, ExecuteCall, MetricEvaluateCall])
      else (Inr (update_default (a_initial_transform args) (a_default args)),
            [MetricEvaluateCall, ExecuteCall, MetricEvaluateCall,
             Print ''Optimization failed to improve metric'',
             PrintValue ''initial value: '' initial_metric_value,
             PrintValue ''final value: '' final_metric_value,
             Print ''Returning default'']))"
  using assms by (simp add: affine_align_def run_alignment_def Let_def not_improved_def)

lemma demo_prepare_alignment:
  "prepare_alignment (demo_library metric optimised) (default_kwargs img) =
     Inr ((configure_irm ())\<lparr>irm_transform := Some (AffineTransform eye3 [0, 0, 0])\<rparr>, img, img)"
  by (simp add: prepare_alignment_def demo_library_def default_kwargs_def skip_sample_inputs_def
      numpy_to_sitk_def select_transform_def set_masks_def on_success_def Let_def)

theorem improvement_gate_witness:
  "prepare_alignment shear_library (default_kwargs ([3, 3, 3], [])) =
     Inr ((configure_irm ())\<lparr>irm_transform := Some (AffineTransform eye3 [0, 0, 0])\<rparr>,
          ([3, 3, 3], []), ([3, 3, 3], [])) \<and>
   metric_evaluate shear_library
     ((configure_irm ())\<lparr>irm_transform := Some (AffineTransform eye3 [0, 0, 0])\<rparr>)
     ([3, 3, 3], []) ([3, 3, 3], []) = Inr 1 \<and>
   metric_evaluate shear_library
     ((configure_irm ())
        \<lparr>irm_transform := Some (AffineTransform [[1, 2, 0], [0, 1, 0], [0, 0, 1]] [1, 0, 0])\<rparr>)
     ([3, 3, 3], []) ([3, 3, 3], []) = Inr 0 \<and>
   affine_align shear_library (default_kwargs ([3, 3, 3], [])) =
     (Inr [[1, 0, 0, 0], [0, 1, 0, 0], [0, 2, 1, 1], [0, 0, 0, 1]],
      [MetricEvaluateCall, ExecuteCall, MetricEvaluateCall]) \<and>
   affine_align still_library (default_kwargs ([3, 3, 3], [])) =
     (Inr eye4,
      [MetricEvaluateCall, ExecuteCall, MetricEvaluateCall,
       Print ''Optimization failed to improve metric'',
       PrintValue ''initial value: '' 1, PrintValue ''final value: '' 1,
       Print ''Returning default''])"
proof -
  let ?r = "(configure_irm ())\<lparr>irm_transform := Some (AffineTransform eye3 [0, 0, 0])\<rparr>
            :: (demo_image, unit) irm"
  let ?img = "([3, 3, 3], []) :: demo_image"
  let ?opt = "AffineTransform [[1, 2, 0], [0, 1, 0], [0, 0, 1]] [1, 0, 0]"
  have gate: "\<not> masks_fail_jaccard api (a_jaccard_filter_threshold (default_kwargs ?img))
                  (a_fix_mask (default_kwargs ?img)) (a_mov_mask (default_kwargs ?img))"
    for api :: "(demo_image, demo_image, unit) library"
    by (simp add: masks_fail_jaccard_def default_kwargs_def)
  have prep1: "prepare_alignment shear_library (default_kwargs ?img) = Inr (?r, ?img, ?img)"
    unfolding shear_library_def by (rule demo_prepare_alignment)
  have prep2: "prepare_alignment still_library (default_kwargs ?img) = Inr (?r, ?img, ?img)"
    unfolding still_library_def by (rule demo_prepare_alignment)
  have i1: "metric_evaluate shear_library ?r ?img ?img = Inr 1"
    by (simp add: shear_library_def demo_library_def shear_metric_def configure_irm_def)
  have e1: "execute shear_library ?r ?img ?img = Inr ?opt"
    by (simp add: shear_library_def demo_library_def)
  have f1: "metric_evaluate shear_library (?r\<lparr>irm_transform := Some ?opt\<rparr>) ?img ?img = Inr 0"
    by (simp add: shear_library_def demo_library_def shear_metric_def configure_irm_def)
  have i2: "metric_evaluate still_library ?r ?img ?img = Inr 1"
    by (simp add: still_library_def demo_library_def)
  have e2: "execute still_library ?r ?img ?img = Inr (AffineTransform eye3 [0, 0, 0])"
    by (simp add: still_library_def demo_library_def)
  have f2: "metric_evaluate still_library
              (?r\<lparr>irm_transform := Some (AffineTransform eye3 [0, 0, 0])\<rparr>) ?img ?img = Inr 1"
    by (simp add: still_library_def demo_library_def)
  have m: "affine_transform_to_matrix ?opt = [[1, 0, 0, 0], [0, 1, 0, 0], [0, 2, 1, 1], [0, 0, 0, 1]]"
    by (simp add: affine_transform_to_matrix_def invert_matrix_axes_def assemble_def)
  show ?thesis
    using prep1 i1 f1 improvement_gate [OF gate prep1 i1 e1 f1]
      improvement_gate [OF gate prep2 i2 e2 f2]
    by (simp add: m default_kwargs_def update_default_def configure_irm_def)
qed

subsection \<open>The scoring loop of \<^verbatim>\<open>random_affine_search\<close>\<close>

lemma generate_params_length:
  "length (generate_params args d) = s_random_iterations args + 1"
  by (simp add: generate_params_def)

lemma F_row_length: "length (F_row mx u) = 3"
  by (simp add: F_row_def)

lemma generate_params_rows:
  "p \<in> set (generate_params args d) \<Longrightarrow> length p = 12"
  by (auto simp: generate_params_def identity_params_def random_params_def F_row_length)

lemma params_to_affine_matrix_succeeds:
  assumes "length shape = 3" and "length fix_spacing = 3" and "3 \<le> length params"
  shows "\<exists>a. params_to_affine_matrix rotvec shape fix_spacing params = Inr a"
  using assms
  by (simp add: params_to_affine_matrix_def translation_matrix_def broadcast3_def
      broadcast_1d_def on_success_def Let_def)

lemma score_candidates_budget:
  assumes fail: "\<forall>r. isl (metric_evaluate api r f m)"
    and cond: "\<And>n. (10 \<le> n \<or> ri + 1 \<le> n) \<longleftrightarrow> B \<le> n"
    and ok: "\<forall>p\<in>set ps. \<exists>a. p2a p = Inr a"
    and lt: "sc_fail_count st < B"
    and enough: "B \<le> sc_fail_count st + length ps"
  shows "\<exists>st' e. score_candidates api p2a f m ri ps st = (Returned eye4, st') \<and>
           sc_fail_count st' = B \<and>
           sc_scores st' = sc_scores st @ replicate (B - sc_fail_count st) float64_max \<and>
           sc_events st' =
             sc_events st @ replicate (B - sc_fail_count st) MetricEvaluateCall
             @ random_search_failed e"
  using ok lt enough
proof (induction ps arbitrary: st)
  case Nil
  then show ?case by simp
next
  case (Cons p ps)
  from Cons.prems(1) obtain a where a: "p2a p = Inr a" by auto
  let ?r = "(sc_irm st)\<lparr>irm_moving_initial := Some (matrix_to_affine_transform a)\<rparr>"
  from fail obtain e where e: "metric_evaluate api ?r f m = Inl e"
    by (metis isl_def)
  let ?st = "st\<lparr>sc_scores := sc_scores st @ [float64_max],
                 sc_fail_count := sc_fail_count st + 1, sc_irm := ?r,
                 sc_events := sc_events st @ [MetricEvaluateCall]\<rparr>"
  show ?case
  proof (cases "B \<le> sc_fail_count st + 1")
    case True
    with Cons.prems(2) have eq: "B - sc_fail_count st = 1" "B = sc_fail_count st + 1" by simp_all
    have "score_candidates api p2a f m ri (p # ps) st =
            (Returned eye4, ?st\<lparr>sc_events := sc_events ?st @ random_search_failed e\<rparr>)"
      using a e True cond [of "sc_fail_count st + 1"] by (simp add: Let_def)
    then show ?thesis using eq by auto
  next
    case False
    then have step: "score_candidates api p2a f m ri (p # ps) st =
                     score_candidates api p2a f m ri ps ?st"
      using a e cond [of "sc_fail_count st + 1"] by (simp add: Let_def)
    have "\<exists>st' e. score_candidates api p2a f m ri ps ?st = (Returned eye4, st') \<and>
           sc_fail_count st' = B \<and>
           sc_scores st' = sc_scores ?st @ replicate (B - sc_fail_count ?st) float64_max \<and>
           sc_events st' =
             sc_events ?st @ replicate (B - sc_fail_count ?st) MetricEvaluateCall
             @ random_search_failed e"
      using Cons.prems False by (intro Cons.IH) auto
    then obtain st' e' where r: "score_candidates api p2a f m ri ps ?st = (Returned eye4, st')"
        "sc_fail_count st' = B"
        "sc_scores st' = sc_scores ?st @ replicate (B - sc_fail_count ?st) float64_max"
        "sc_events st' =
             sc_events ?st @ replicate (B - sc_fail_count ?st) MetricEvaluateCall
             @ random_search_failed e'"
      by blast
    have k: "B - sc_fail_count st = Suc (B - (sc_fail_count st + 1))"
      using False by simp
    have "sc_scores st' = sc_scores st @ replicate (B - sc_fail_count st) float64_max"
      unfolding k using r(3) by simp
    moreover have "sc_events st' =
             sc_events st @ replicate (B - sc_fail_count st) MetricEvaluateCall
             @ random_search_failed e'"
      unfolding k using r(4) by simp
    ultimately show ?thesis using r(1,2) step by auto
  qed
qed

lemma score_all_all_fail:
  assumes fail: "\<forall>r. isl (metric_evaluate api r (c_fix_sitk c) (c_mov_sitk c))"
    and dims: "length (shape_of api (c_fix c)) = 3" "length (c_fix_spacing c) = 3"
  shows "\<exists>st e. score_all api rotvec args d c = (Returned eye4, st) \<and>
           sc_fail_count st = min 10 (s_random_iterations args + 1) \<and>
           sc_scores st = replicate (min 10 (s_random_iterations args + 1)) float64_max \<and>
           sc_events st =
             replicate (min 10 (s_random_iterations args + 1)) MetricEvaluateCall
             @ random_search_failed e"
proof -
  have ok: "\<forall>p\<in>set (generate_params args d). \<exists>a. search_p2a api rotvec c p = Inr a"
    using dims generate_params_rows [of _ args d]
    by (auto simp: search_p2a_def intro!: params_to_affine_matrix_succeeds)
  have cond: "(10 \<le> n \<or> s_random_iterations args + 1 \<le> n) \<longleftrightarrow>
              min 10 (s_random_iterations args + 1) \<le> n" for n
    by auto
  have "sc_fail_count (initial_scoring (c_irm c)) < min 10 (s_random_iterations args + 1)"
    and "min 10 (s_random_iterations args + 1)
         \<le> sc_fail_count (initial_scoring (c_irm c)) + length (generate_params args d)"
    by (simp_all add: initial_scoring_def generate_params_length)
  from score_candidates_budget [OF fail cond ok this]
  show ?thesis
    unfolding score_all_def by (simp add: initial_scoring_def)
qed

lemma score_candidates_fallthrough_length:
  "score_candidates api p2a f m ri ps st = (Fallthrough, st') \<Longrightarrow>
   length (sc_scores st') = length (sc_scores st) + length ps"
proof (induction ps arbitrary: st)
  case Nil
  then show ?case by simp
next
  case (Cons p ps)
  then show ?case
    by (fastforce simp: Let_def split: sum.splits if_splits)
qed

lemma score_candidates_all_succeed:
  assumes good: "\<forall>r. \<not> isl (metric_evaluate api r f m)"
    and ok: "\<forall>p\<in>set ps. \<exists>a. p2a p = Inr a"
  shows "fst (score_candidates api p2a f m ri ps st) = Fallthrough"
  using ok
proof (induction ps arbitrary: st)
  case Nil
  then show ?case by simp
next
  case (Cons p ps)
  from Cons.prems obtain a where a: "p2a p = Inr a" by auto
  let ?r = "(sc_irm st)\<lparr>irm_moving_initial := Some (matrix_to_affine_transform a)\<rparr>"
  from good obtain v where v: "metric_evaluate api ?r f m = Inr v"
    by (metis isl_def sum.collapse(2))
  show ?case using a v Cons by (simp add: Let_def)
qed

lemma argsort_set: "set (argsort scores) = {0..<length scores}"
proof -
  have a: "map snd (zip scores [0..<length scores]) = [0..<length scores]"
    by (rule map_snd_zip) simp
  have "set (argsort scores) = snd ` set (zip scores [0..<length scores])"
    by (simp add: argsort_def)
  also have "\<dots> = set (map snd (zip scores [0..<length scores]))"
    by (simp only: set_map)
  also have "\<dots> = {0..<length scores}"
    by (simp only: a set_upt)
  finally show ?thesis .
qed

lemma identity_matrix_of_identity_params:
  assumes "length shape = 3" and "length fix_spacing = 3" and "rotvec [0, 0, 0] = eye3"
  shows "params_to_affine_matrix rotvec shape fix_spacing identity_params = Inr eye4"
proof -
  from assms(1) obtain a b c where s: "shape = [a, b, c]"
    by (auto simp: length_Suc_conv numeral_3_eq_3)
  from assms(2) obtain u v w where t: "fix_spacing = [u, v, w]"
    by (auto simp: length_Suc_conv numeral_3_eq_3)
  show ?thesis
    unfolding s t
    by (simp add: params_to_affine_matrix_def identity_params_def translation_matrix_def
        broadcast3_def broadcast_1d_def on_success_def Let_def assms(3) eye3_def assemble_def
        matmul_def eye4_def)
qed

lemma rodrigues_zero: "rodrigues [0, 0, 0] = eye3"
  by (simp add: rodrigues_def)

lemma demo_prepare_search:
  "prepare_search (demo_library metric optimised) (demo_search n) = Inr demo_context"
  by (simp add: prepare_search_def demo_library_def demo_search_def
      demo_context_def skip_sample_inputs_def numpy_to_sitk_def set_masks_def on_success_def)

text \<open>
  C4. When every metric evaluation raises and the call reaches the scoring loop (the
  Jaccard pre-check passes, the preparation raises nothing, the image has three axes), each
  candidate gets the largest float as its score and counts as a failure, and the loop
  returns the identity at the failure that brings the count to the smaller of 10 and
  \<open>random_iterations + 1\<close>: that many metric evaluations are made and no exception leaves
  \<^verbatim>\<open>random_affine_search\<close>.
\<close>

theorem bounded_retry:
  assumes fail: "\<forall>r f m. isl (metric_evaluate api r f m)"
    and gate: "\<not> masks_fail_jaccard api (s_jaccard_filter_threshold args) (s_fix_mask args)
                     (s_mov_mask args)"
    and prep: "prepare_search api args = Inr c"
    and dims: "length (shape_of api (c_fix c)) = 3" "length (c_fix_spacing c) = 3"
  shows "\<exists>st e. score_all api rotvec args d c = (Returned eye4, st) \<and>
           sc_fail_count st = min 10 (s_random_iterations args + 1) \<and>
           sc_scores st = replicate (min 10 (s_random_iterations args + 1)) float64_max \<and>
           random_affine_search api rotvec args d =
             (Inr eye4,
              replicate (min 10 (s_random_iterations args + 1)) MetricEvaluateCall
              @ random_search_failed e)"
proof -
  from fail have "\<forall>r. isl (metric_evaluate api r (c_fix_sitk c) (c_mov_sitk c))" by simp
  from score_all_all_fail [OF this dims, of rotvec args d]
  obtain st e where st: "score_all api rotvec args d c = (Returned eye4, st)"
      "sc_fail_count st = min 10 (s_random_iterations args + 1)"
      "sc_scores st = replicate (min 10 (s_random_iterations args + 1)) float64_max"
      "sc_events st =
         replicate (min 10 (s_random_iterations args + 1)) MetricEvaluateCall
         @ random_search_failed e"
    by blast
  have "random_affine_search api rotvec args d = (Inr eye4, sc_events st)"
    using gate prep st(1) by (simp add: random_affine_search_def)
  with st show ?thesis by auto
qed

lemma failing_prepare: "prepare_search failing_library (demo_search n) = Inr demo_context"
  unfolding failing_library_def by (rule demo_prepare_search)

theorem bounded_retry_witness:
  "(\<forall>r f m. isl (metric_evaluate failing_library r f m)) \<and>
   prepare_search failing_library (demo_search 20) = Inr demo_context \<and>
   fst (random_affine_search failing_library rodrigues (demo_search 20) demo_draws) = Inr eye4 \<and>
   length (filter (\<lambda>ev. ev = MetricEvaluateCall)
             (snd (random_affine_search failing_library rodrigues (demo_search 20) demo_draws)))
     = 10"
proof -
  have fail: "\<forall>r f m. isl (metric_evaluate failing_library r f m)"
    by (simp add: failing_library_def demo_library_def)
  have gate: "\<not> masks_fail_jaccard failing_library (s_jaccard_filter_threshold (demo_search 20))
                  (s_fix_mask (demo_search 20)) (s_mov_mask (demo_search 20))"
    by (simp add: masks_fail_jaccard_def demo_search_def)
  have dims: "length (shape_of failing_library (c_fix demo_context)) = 3"
      "length (c_fix_spacing demo_context) = 3"
    by (simp_all add: failing_library_def demo_library_def demo_context_def)
  from bounded_retry [OF fail gate failing_prepare dims, of rodrigues demo_draws]
  obtain e where "random_affine_search failing_library rodrigues (demo_search 20) demo_draws =
      (Inr eye4, replicate (min 10 (s_random_iterations (demo_search 20) + 1)) MetricEvaluateCall
                 @ random_search_failed e)"
    by blast
  then show ?thesis
    using fail failing_prepare by (simp add: demo_search_def random_search_failed_def)
qed

text \<open>
  C10, as the code has it. When the scoring loop runs to its end, exactly
  \<open>random_iterations + 1\<close> candidates have been scored; the first row of the parameters is
  the identity row, whose matrix is the 4x4 identity (for a three-dimensional image, the
  rotation of the zero vector being the identity); the identity row is among the ranked rows;
  and without refinement the result is the matrix of one of the candidate rows.
\<close>

theorem identity_candidate_ranked:
  assumes fall: "score_all api rotvec args d c = (Fallthrough, st)"
    and dims: "length (shape_of api (c_fix c)) = 3" "length (c_fix_spacing c) = 3"
    and rot0: "rotvec [0, 0, 0] = eye3"
  shows "length (sc_scores st) = s_random_iterations args + 1 \<and>
         length (generate_params args d) = s_random_iterations args + 1 \<and>
         generate_params args d ! 0 = identity_params \<and>
         search_p2a api rotvec c identity_params = Inr eye4 \<and>
         identity_params \<in> set (map (\<lambda>i. generate_params args d ! i) (argsort (sc_scores st))) \<and>
         (s_affine_align_best args = 0 \<longrightarrow>
            (\<exists>p\<in>set (generate_params args d).
               fst (rank_and_refine api rotvec args d c st) = search_p2a api rotvec c p))"
proof -
  have len: "length (sc_scores st) = s_random_iterations args + 1"
    using score_candidates_fallthrough_length [OF fall [unfolded score_all_def]]
    by (simp add: initial_scoring_def generate_params_length)
  have first: "generate_params args d ! 0 = identity_params"
    by (simp add: generate_params_def)
  have idm: "search_p2a api rotvec c identity_params = Inr eye4"
    using dims rot0 by (simp add: search_p2a_def identity_matrix_of_identity_params)
  have "0 \<in> set (argsort (sc_scores st))"
    using len by (simp add: argsort_set)
  then have mem: "identity_params \<in> set (map (\<lambda>i. generate_params args d ! i) (argsort (sc_scores st)))"
    using first by force
  have best: "\<exists>p\<in>set (generate_params args d).
               fst (rank_and_refine api rotvec args d c st) = search_p2a api rotvec c p"
    if "s_affine_align_best args = 0"
  proof -
    let ?ranked = "map (\<lambda>i. generate_params args d ! i) (argsort (sc_scores st))"
    have ne: "?ranked \<noteq> []" using mem by auto
    then have "argsort (sc_scores st) \<noteq> []" by simp
    then have "argsort (sc_scores st) ! 0 \<in> set (argsort (sc_scores st))"
      by (simp add: hd_conv_nth [symmetric])
    then have "argsort (sc_scores st) ! 0 < length (generate_params args d)"
      using len by (simp add: argsort_set generate_params_length)
    then have "?ranked ! 0 \<in> set (generate_params args d)"
      using ne by (simp add: nth_map)
    moreover have "fst (rank_and_refine api rotvec args d c st) = search_p2a api rotvec c (?ranked ! 0)"
      using that ne by (simp add: rank_and_refine_def Let_def)
    ultimately show ?thesis by blast
  qed
  show ?thesis using len first idm mem best by (simp add: generate_params_length)
qed

theorem identity_candidate_ranked_witness:
  "fst (score_all still_library rodrigues (demo_search 2) demo_draws demo_context) = Fallthrough \<and>
   length (sc_scores (snd (score_all still_library rodrigues (demo_search 2) demo_draws demo_context))) = 3 \<and>
   search_p2a still_library rodrigues demo_context identity_params = Inr eye4 \<and>
   s_affine_align_best (demo_search 2) = 0 \<and>
   (\<exists>p\<in>set (generate_params (demo_search 2) demo_draws).
      fst (rank_and_refine still_library rodrigues (demo_search 2) demo_draws demo_context
             (snd (score_all still_library rodrigues (demo_search 2) demo_draws demo_context)))
      = search_p2a still_library rodrigues demo_context p)"
proof -
  have dims: "length (shape_of still_library (c_fix demo_context)) = 3"
      "length (c_fix_spacing demo_context) = 3"
    by (simp_all add: still_library_def demo_library_def demo_context_def)
  have ok: "\<forall>p\<in>set (generate_params (demo_search 2) demo_draws).
              \<exists>a. search_p2a still_library rodrigues demo_context p = Inr a"
    using dims generate_params_rows [of _ "demo_search 2" demo_draws]
    by (auto simp: search_p2a_def intro!: params_to_affine_matrix_succeeds)
  have good: "\<forall>r. \<not> isl (metric_evaluate still_library r (c_fix_sitk demo_context)
                            (c_mov_sitk demo_context))"
    by (simp add: still_library_def demo_library_def)
  have f: "fst (score_all still_library rodrigues (demo_search 2) demo_draws demo_context)
           = Fallthrough"
    unfolding score_all_def by (rule score_candidates_all_succeed [OF good ok])
  then have fall: "score_all still_library rodrigues (demo_search 2) demo_draws demo_context =
      (Fallthrough, snd (score_all still_library rodrigues (demo_search 2) demo_draws demo_context))"
    by (metis prod.collapse)
  have best: "s_affine_align_best (demo_search 2) = 0" by (simp add: demo_search_def)
  show ?thesis
    using f best identity_candidate_ranked [OF fall dims rodrigues_zero]
    by (simp add: demo_search_def)
qed

text \<open>
  C10 as stated fails: with 20 random iterations and a metric that always raises the call
  reaches the scoring loop, which returns at the tenth candidate; 10 candidates have been
  scored, not 21.
\<close>

theorem scored_candidates_counterexample:
  "prepare_search failing_library (demo_search 20) = Inr demo_context \<and>
   fst (score_all failing_library rodrigues (demo_search 20) demo_draws demo_context)
     = Returned eye4 \<and>
   length (sc_scores
             (snd (score_all failing_library rodrigues (demo_search 20) demo_draws demo_context)))
     = 10 \<and>
   s_random_iterations (demo_search 20) + 1 = 21"
proof -
  have fail: "\<forall>r. isl (metric_evaluate failing_library r (c_fix_sitk demo_context)
                           (c_mov_sitk demo_context))"
    by (simp add: failing_library_def demo_library_def)
  have dims: "length (shape_of failing_library (c_fix demo_context)) = 3"
      "length (c_fix_spacing demo_context) = 3"
    by (simp_all add: failing_library_def demo_library_def demo_context_def)
  from score_all_all_fail [OF fail dims, of rodrigues "demo_search 20" demo_draws]
  show ?thesis
    using failing_prepare by (auto simp: demo_search_def)
qed

subsection \<open>The first outer level of \<^verbatim>\<open>distributed_twist_align\<close>\<close>

text \<open>
  At outer level 0 the deform is not touched: the composition is guarded by
  \<^verbatim>\<open>if outer_level > 0\<close> and there is no other assignment to \<^verbatim>\<open>deform\<close>.
\<close>

lemma first_outer_level_keeps_deform:
  "outer_level_step tw kwargs parameter_schedule initial_transform_list mov mov_mask
     save_intermediates 0 inner_list st = Inr st' \<Longrightarrow> t_deform st' = t_deform st"
  by (auto simp: outer_level_step_def on_success_def Let_def split: sum.splits prod.splits)

text \<open>
  C1 at a concrete schedule. One outer level with the two inner levels \<open>(2, 1, 1)\<close> and
  \<open>(1, 2, 1)\<close>, each of which finds the field \<open>(1, 2, 3)\<close>: the sum of the inner fields
  is \<open>(2, 4, 6)\<close> and their mean \<open>(1, 2, 3)\<close>, but the deform that is returned is the
  zero field. With a second outer level that finds \<open>(1, 2, 3)\<close> again, the result is
  \<open>(1, 2, 3)\<close>: the first level's contribution is missing from it.
\<close>

theorem first_level_contribution_dropped:
  "inner_levels demo_twist () None () None [[2, 1, 1], [1, 2, 1]] ([0, 0, 0], 0)
     = Inr ([2, 4, 6], 2) \<and>
   take_mean [2, 4, 6] 2 = Inr [1, 2, 3] \<and>
   distributed_twist_align demo_twist [1, 1, 1] () [[[2, 1, 1], [1, 2, 1]]] None None None
     False () = Inr [0, 0, 0] \<and>
   distributed_twist_align demo_twist [1, 1, 1] () [[[2, 1, 1], [1, 2, 1]], [[2, 2, 1]]] None
     None None False () = Inr [1, 2, 3]"
  by code_simp

subsection \<open>Sampling and stitching of \<^verbatim>\<open>distributed_piecewise_exhaustive_translation\<close>\<close>

lemma py_range_bounds:
  assumes "0 < step" and "x \<in> set (py_range a b step)"
  shows "a \<le> x \<and> x < b"
proof -
  from assms have ab: "a < b"
    by (auto simp: py_range_def split: if_splits)
  with assms obtain k where k: "k < nat ((b - a - 1) div step + 1)" "x = a + int k * step"
    by (auto simp: py_range_def)
  then have "int k \<le> (b - a - 1) div step" by simp
  then have "int k * step \<le> ((b - a - 1) div step) * step"
    using assms(1) by (simp add: mult_right_mono)
  also have "\<dots> \<le> b - a - 1"
  proof -
    have "((b - a - 1) div step) * step + (b - a - 1) mod step = b - a - 1" by simp
    moreover have "0 \<le> (b - a - 1) mod step" using assms(1) by simp
    ultimately show ?thesis by linarith
  qed
  finally have "int k * step \<le> b - a - 1" .
  moreover have "0 \<le> int k * step" using assms(1) by simp
  ultimately show ?thesis using k(2) by linarith
qed

lemma py_range_unit: "a \<le> b \<Longrightarrow> py_range a b 1 = map (\<lambda>k. a + int k) [0..<nat (b - a)]"
  by (auto simp: py_range_def)

lemma slice_inside:
  assumes "0 \<le> lo" and "hi \<le> int n" and "lo \<le> hi"
  shows "slice_indices n lo hi 1 = Inr (map (\<lambda>k. lo + int k) [0..<nat (hi - lo)])"
  using assms by (simp add: slice_indices_def clamp_bound_def py_range_unit)

lemma axis_samples_inside:
  assumes "axis_samples n l s = Inr xs" and "x \<in> set xs"
  shows "inside n x l"
proof -
  have s: "0 < int s"
    using assms(1) by (cases "s = 0") (simp_all add: axis_samples_def slice_indices_def)
  have xs: "xs = py_range (clamp_bound n 0 (int n) (int l)) (clamp_bound n 0 (int n) (- int l)) (int s)"
    using assms(1) s by (simp add: axis_samples_def slice_indices_def Let_def)
  from py_range_bounds [OF s assms(2) [unfolded xs]]
  have b: "clamp_bound n 0 (int n) (int l) \<le> x" "x < clamp_bound n 0 (int n) (- int l)"
    by simp_all
  show ?thesis
  proof (cases "l = 0")
    case True
    with b show ?thesis by (simp add: clamp_bound_def)
  next
    case False
    with b show ?thesis
      unfolding inside_def clamp_bound_def by (auto simp: min_def max_def split: if_splits)
  qed
qed

lemma inside_mono: "inside n c l \<Longrightarrow> r \<le> l \<Longrightarrow> inside n c r"
  unfolding inside_def by linarith

lemma window_axis_inside:
  assumes "inside n c r"
  shows "window_axis n c r = Inr (map (\<lambda>k. c - int r + int k) [0..<Suc (2 * r)])"
proof -
  have "slice_indices n (c - int r) (c + int r + 1) 1 =
          Inr (map (\<lambda>k. c - int r + int k) [0..<nat (c + int r + 1 - (c - int r))])"
    using assms unfolding inside_def by (intro slice_inside) auto
  moreover have "nat (c + int r + 1 - (c - int r)) = Suc (2 * r)" by simp
  ultimately show ?thesis by (simp add: window_axis_def on_success_def)
qed

lemma block_axis_inside:
  assumes "inside n c r"
  shows "block_axis n c r = Inr (map (\<lambda>k. c - int r + int k) [0..<Suc (2 * r)])"
proof -
  have "slice_indices n (c - int r) (c + int r + 1) 1 =
          Inr (map (\<lambda>k. c - int r + int k) [0..<nat (c + int r + 1 - (c - int r))])"
    using assms unfolding inside_def by (intro slice_inside) auto
  moreover have "nat (c + int r + 1 - (c - int r)) = Suc (2 * r)" by simp
  ultimately show ?thesis by (simp add: block_axis_def on_success_def)
qed

lemma offsets_members:
  "a \<in> set (map (\<lambda>k. lo + int k) [0..<m]) \<longleftrightarrow> lo \<le> a \<and> a < lo + int m"
proof
  assume "a \<in> set (map (\<lambda>k. lo + int k) [0..<m])"
  then obtain k where "k < m" "a = lo + int k" by auto
  then show "lo \<le> a \<and> a < lo + int m" by simp
next
  assume h: "lo \<le> a \<and> a < lo + int m"
  then have "nat (a - lo) < m" "a = lo + int (nat (a - lo))" by auto
  then have "a \<in> (\<lambda>k. lo + int k) ` {0..<m}" by (metis atLeastLessThan_iff image_eqI zero_le)
  then show "a \<in> set (map (\<lambda>k. lo + int k) [0..<m])" by simp
qed

lemma window_members:
  "a \<in> set (map (\<lambda>k. c - int r + int k) [0..<Suc (2 * r)]) \<longleftrightarrow> \<bar>a - c\<bar> \<le> int r"
  unfolding offsets_members by auto

lemma window_hd: "hd (map (\<lambda>k. c - int r + int k) [0..<Suc (2 * r)]) = c - int r"
  by (simp add: upt_conv_Cons del: upt_Suc)

lemma ramp_shift: "ramp s (d + int s) = ramp_at s d"
  by (simp add: ramp_def ramp_at_def)

lemma sample_points_members:
  assumes "sample_points (n0, n1, n2) (l0, l1, l2) (s0, s1, s2) msk = Inr samples"
  shows "\<exists>xs ys zs. axis_samples n0 l0 s0 = Inr xs \<and> axis_samples n1 l1 s1 = Inr ys \<and>
           axis_samples n2 l2 s2 = Inr zs \<and>
           samples = filter (\<lambda>c. case msk of None \<Rightarrow> True | Some m \<Rightarrow> m c)
                       (List.product xs (List.product ys zs))"
  using assms
  by (auto simp: sample_points_def on_success_def split: sum.splits)

lemma sample_points_inside:
  assumes "sample_points (n0, n1, n2) (l0, l1, l2) (s0, s1, s2) msk = Inr samples"
    and "(x, y, z) \<in> set samples"
  shows "inside n0 x l0 \<and> inside n1 y l1 \<and> inside n2 z l2"
proof -
  from sample_points_members [OF assms(1)] obtain xs ys zs where
    ax: "axis_samples n0 l0 s0 = Inr xs" "axis_samples n1 l1 s1 = Inr ys"
        "axis_samples n2 l2 s2 = Inr zs"
    and s: "samples = filter (\<lambda>c. case msk of None \<Rightarrow> True | Some m \<Rightarrow> m c)
                       (List.product xs (List.product ys zs))"
    by blast
  from assms(2) s have "x \<in> set xs" "y \<in> set ys" "z \<in> set zs" by auto
  with ax show ?thesis by (auto intro: axis_samples_inside)
qed

lemma sample_points_mask:
  assumes "sample_points shape limit stride msk = Inr samples"
  shows "\<exists>every. sample_points shape limit stride None = Inr every \<and> set samples \<subseteq> set every"
proof -
  obtain n0 n1 n2 l0 l1 l2 s0 s1 s2 where
    t: "shape = (n0, n1, n2)" "limit = (l0, l1, l2)" "stride = (s0, s1, s2)"
    by (metis prod.exhaust)
  from sample_points_members [OF assms [unfolded t]] obtain xs ys zs where
    ax: "axis_samples n0 l0 s0 = Inr xs" "axis_samples n1 l1 s1 = Inr ys"
        "axis_samples n2 l2 s2 = Inr zs"
    and s: "samples = filter (\<lambda>c. case msk of None \<Rightarrow> True | Some m \<Rightarrow> m c)
                       (List.product xs (List.product ys zs))"
    by blast
  have "sample_points shape limit stride None = Inr (List.product xs (List.product ys zs))"
    using ax by (simp add: t sample_points_def on_success_def)
  then show ?thesis using s by auto
qed

lemma limit_bounds:
  "limit_of (search_radius_of (q0, q1, q2) (k0, k1, k2) (z0, z1, z2)) (s0, s1, s2) = (l0, l1, l2)
   \<Longrightarrow> q0 \<le> q0 + k0 * z0 \<and> q0 + k0 * z0 \<le> l0 \<and> s0 \<le> l0 \<and>
       q1 \<le> q1 + k1 * z1 \<and> q1 + k1 * z1 \<le> l1 \<and> s1 \<le> l1 \<and>
       q2 \<le> q2 + k2 * z2 \<and> q2 + k2 * z2 \<le> l2 \<and> s2 \<le> l2"
  by (auto simp: limit_of_def search_radius_of_def split: if_splits)

lemma read_block_inside:
  assumes "inside n0 x r0" and "inside n1 y r1" and "inside n2 z r2"
  shows "\<exists>b. read_block (n0, n1, n2) vol (x, y, z) (r0, r1, r2) = Inr b"
  using assms by (simp add: read_block_def block_axis_inside on_success_def)

lemma vadd_zero: "vadd v (0, 0, 0) = v"
  by (cases v) (simp add: vadd_def)

lemma add_window_inside:
  assumes "inside n0 x s0" and "inside n1 y s1" and "inside n2 z s2"
  shows "add_window (n0, n1, n2) (s0, s1, s2) field (t, (x, y, z)) =
           Inr (\<lambda>p. vadd (field p) (window_contribution (s0, s1, s2) (t, (x, y, z)) p))"
proof -
  have w: "weights (s0, s1, s2) (a - (x - int s0), b - (y - int s1), c - (z - int s2)) =
           ramp_at s0 (a - x) * ramp_at s1 (b - y) * ramp_at s2 (c - z)" for a b c
    using ramp_shift [of s0 "a - x"] ramp_shift [of s1 "b - y"] ramp_shift [of s2 "c - z"]
    by (simp add: weights_def algebra_simps)
  have "(\<lambda>(a, b, c).
           if a \<in> set (map (\<lambda>k. x - int s0 + int k) [0..<Suc (2 * s0)]) \<and>
              b \<in> set (map (\<lambda>k. y - int s1 + int k) [0..<Suc (2 * s1)]) \<and>
              c \<in> set (map (\<lambda>k. z - int s2 + int k) [0..<Suc (2 * s2)])
           then vadd (field (a, b, c))
                  (vscale (weights (s0, s1, s2)
                             (a - hd (map (\<lambda>k. x - int s0 + int k) [0..<Suc (2 * s0)]),
                              b - hd (map (\<lambda>k. y - int s1 + int k) [0..<Suc (2 * s1)]),
                              c - hd (map (\<lambda>k. z - int s2 + int k) [0..<Suc (2 * s2)]))) t)
           else field (a, b, c)) =
        (\<lambda>p. vadd (field p) (window_contribution (s0, s1, s2) (t, (x, y, z)) p))"
    unfolding window_members window_hd w
    by (rule ext) (auto simp: window_contribution_def vadd_zero)
  then show ?thesis
    using assms by (simp add: add_window_def window_axis_inside on_success_def del: upt_Suc)
qed

lemma stitch_from_inside:
  assumes "\<forall>tc\<in>set tcs. inside3 shape (snd tc) stride"
  shows "stitch_from shape stride tcs field =
           Inr (\<lambda>p. foldl vadd (field p) (map (\<lambda>tc. window_contribution stride tc p) tcs))"
  using assms
proof (induction tcs arbitrary: field)
  case Nil
  then show ?case by simp
next
  case (Cons tc tcs)
  obtain n0 n1 n2 s0 s1 s2 t x y z where
    t: "shape = (n0, n1, n2)" "stride = (s0, s1, s2)" "tc = (t, (x, y, z))"
    by (metis prod.exhaust)
  from Cons.prems have "inside n0 x s0" "inside n1 y s1" "inside n2 z s2"
    by (simp_all add: t inside3_def)
  then have "add_window shape stride field tc =
               Inr (\<lambda>p. vadd (field p) (window_contribution stride tc p))"
    unfolding t by (rule add_window_inside)
  moreover have "stitch_from shape stride tcs (\<lambda>p. vadd (field p) (window_contribution stride tc p)) =
      Inr (\<lambda>p. foldl vadd (vadd (field p) (window_contribution stride tc p))
                  (map (\<lambda>tc. window_contribution stride tc p) tcs))"
    using Cons.prems by (intro Cons.IH) simp
  ultimately show ?case by (simp add: on_success_def)
qed

lemma collect_all_Inr:
  "\<forall>r\<in>set rs. \<exists>x. r = Inr x \<Longrightarrow> \<exists>xs. collect rs = Inr xs"
proof (induction rs)
  case Nil
  then show ?case by simp
next
  case (Cons r rs)
  then obtain x xs where "r = Inr x" "collect rs = Inr xs" by auto
  then show ?case by (simp add: on_success_def)
qed

lemma sample_inside_all:
  assumes samp: "sample_points shape
                   (limit_of (search_radius_of query_radius num_steps step_sizes) stride)
                   stride msk = Inr samples"
    and mem: "c \<in> set samples"
  shows "inside3 shape c (limit_of (search_radius_of query_radius num_steps step_sizes) stride) \<and>
         inside3 shape c (search_radius_of query_radius num_steps step_sizes) \<and>
         inside3 shape c query_radius \<and>
         inside3 shape c stride"
proof -
  obtain n0 n1 n2 q0 q1 q2 k0 k1 k2 z0 z1 z2 s0 s1 s2 x y z where
    t: "shape = (n0, n1, n2)" "query_radius = (q0, q1, q2)" "num_steps = (k0, k1, k2)"
       "step_sizes = (z0, z1, z2)" "stride = (s0, s1, s2)" "c = (x, y, z)"
    by (metis prod.exhaust)
  have sr: "search_radius_of (q0, q1, q2) (k0, k1, k2) (z0, z1, z2)
            = (q0 + k0 * z0, q1 + k1 * z1, q2 + k2 * z2)"
    by (simp add: search_radius_of_def)
  obtain l0 l1 l2 where
    l: "limit_of (search_radius_of (q0, q1, q2) (k0, k1, k2) (z0, z1, z2)) (s0, s1, s2)
        = (l0, l1, l2)"
    by (metis prod.exhaust)
  from samp mem have lim: "inside n0 x l0" "inside n1 y l1" "inside n2 z l2"
    using sample_points_inside [of n0 n1 n2 l0 l1 l2 s0 s1 s2 msk samples x y z]
    by (simp_all add: t l)
  note b = limit_bounds [OF l]
  have srad: "inside n0 x (q0 + k0 * z0)" "inside n1 y (q1 + k1 * z1)" "inside n2 z (q2 + k2 * z2)"
    using lim b by (auto intro: inside_mono)
  have qrad: "inside n0 x q0" "inside n1 y q1" "inside n2 z q2"
    using srad by (auto intro: inside_mono)
  have strd: "inside n0 x s0" "inside n1 y s1" "inside n2 z s2"
    using lim b by (auto intro: inside_mono)
  show ?thesis
    using lim srad qrad strd by (simp add: t sr l [unfolded sr] inside3_def)
qed

lemma gather_blocks_inside:
  assumes "inside3 shape c search_radius" and "inside3 shape c query_radius"
  shows "\<exists>b. gather_blocks shape fixed shape mov search_radius query_radius c = Inr b"
proof -
  obtain n0 n1 n2 r0 r1 r2 q0 q1 q2 x y z where
    t: "shape = (n0, n1, n2)" "search_radius = (r0, r1, r2)" "query_radius = (q0, q1, q2)"
       "c = (x, y, z)"
    by (metis prod.exhaust)
  from assms have "inside n0 x r0" "inside n1 y r1" "inside n2 z r2"
    and "inside n0 x q0" "inside n1 y q1" "inside n2 z q2"
    by (simp_all add: t inside3_def)
  then show ?thesis
    using read_block_inside [of n0 x r0 n1 y r1 n2 z r2 fixed]
      read_block_inside [of n0 x q0 n1 y q1 n2 z q2 mov]
    by (auto simp: t gather_blocks_def on_success_def)
qed

text \<open>
  C9. Every sample centre that is selected lies at least the per-axis limit (the larger of
  search radius and stride) away from both ends of every axis, so the slices of the fixed
  block (search radius), of the moving block (query radius, on a moving volume of the shape
  of the fixed one) and of the stitching window (stride) around it lie inside the array:
  the blocks are read and the window is written without an exception. Centres are left out,
  never moved: with a mask the centres are a subset of the centres without one. When the
  search of every block pair returns, so does the whole function.
\<close>

theorem samples_keep_full_context:
  assumes samp: "sample_points shape
                   (limit_of (search_radius_of query_radius num_steps step_sizes) stride)
                   stride msk = Inr samples"
  shows "(\<forall>c\<in>set samples.
            inside3 shape c (limit_of (search_radius_of query_radius num_steps step_sizes) stride) \<and>
            inside3 shape c (search_radius_of query_radius num_steps step_sizes) \<and>
            inside3 shape c query_radius \<and>
            inside3 shape c stride \<and>
            (\<exists>fb mb. gather_blocks shape fixed shape mov
                        (search_radius_of query_radius num_steps step_sizes) query_radius c
                      = Inr (fb, mb)) \<and>
            (\<forall>field t. \<exists>f. add_window shape stride field (t, c) = Inr f)) \<and>
         (\<exists>every. sample_points shape
                     (limit_of (search_radius_of query_radius num_steps step_sizes) stride)
                     stride None = Inr every \<and> set samples \<subseteq> set every) \<and>
         ((\<forall>fb mb. \<exists>t. exhaustive ex fb mb = Inr t) \<longrightarrow>
            (\<exists>field. distributed_piecewise_exhaustive_translation ex shape fixed shape mov stride
                        query_radius num_steps step_sizes smooth_sigma msk = Inr field))"
proof -
  let ?sr = "search_radius_of query_radius num_steps step_sizes"
  note ins = sample_inside_all [OF samp]
  have g: "\<exists>fb mb. gather_blocks shape fixed shape mov ?sr query_radius c = Inr (fb, mb)"
    if "c \<in> set samples" for c
    using gather_blocks_inside [of shape c ?sr query_radius fixed mov] ins [OF that] by auto
  have w: "\<exists>f. add_window shape stride field (t, c) = Inr f" if "c \<in> set samples" for c field t
  proof -
    obtain n0 n1 n2 s0 s1 s2 x y z where
      t: "shape = (n0, n1, n2)" "stride = (s0, s1, s2)" "c = (x, y, z)"
      by (metis prod.exhaust)
    from ins [OF that] have "inside n0 x s0" "inside n1 y s1" "inside n2 z s2"
      by (simp_all add: t inside3_def)
    from add_window_inside [OF this] show ?thesis unfolding t by blast
  qed
  have total: "\<exists>field. distributed_piecewise_exhaustive_translation ex shape fixed shape mov stride
                        query_radius num_steps step_sizes smooth_sigma msk = Inr field"
    if never: "\<forall>fb mb. \<exists>t. exhaustive ex fb mb = Inr t"
  proof -
    have "\<forall>r\<in>set (map (gather_blocks shape fixed shape mov ?sr query_radius) samples).
            \<exists>x. r = Inr x"
      using g by auto
    from collect_all_Inr [OF this] obtain blocks where
      blocks: "collect (map (gather_blocks shape fixed shape mov ?sr query_radius) samples)
               = Inr blocks"
      by blast
    have "\<forall>r\<in>set (map (\<lambda>(fb, mb). exhaustive ex fb mb) blocks). \<exists>x. r = Inr x"
      using never by auto
    from collect_all_Inr [OF this] obtain trs where
      tr: "collect (map (\<lambda>(fb, mb). exhaustive ex fb mb) blocks) = Inr trs"
      by blast
    have "\<forall>tc\<in>set (zip trs samples). inside3 shape (snd tc) stride"
      using ins by (auto dest: set_zip_rightD)
    from stitch_from_inside [OF this]
    have "\<exists>field. stitch shape stride trs samples = Inr field"
      by (simp add: stitch_def)
    then show ?thesis
      using samp blocks tr
      by (auto simp: distributed_piecewise_exhaustive_translation_def Let_def on_success_def)
  qed
  show ?thesis
    using ins g w sample_points_mask [OF samp] total by blast
qed

theorem samples_keep_full_context_witness:
  "sample_points (10, 10, 10) (limit_of (search_radius_of (1, 1, 1) (1, 1, 1) (1, 1, 1)) (3, 3, 3))
     (3, 3, 3) (Some (\<lambda>(x, y, z). x = 3)) = Inr [(3, 3, 3), (3, 3, 6), (3, 6, 3), (3, 6, 6)] \<and>
   inside3 (10, 10, 10) (3, 6, 6) (3, 3, 3) \<and> inside3 (10, 10, 10) (3, 6, 6) (2, 2, 2) \<and>
   inside3 (10, 10, 10) (3, 6, 6) (1, 1, 1) \<and>
   (\<forall>fb mb. \<exists>t. exhaustive demo_translation fb mb = Inr t) \<and>
   (\<exists>field. distributed_piecewise_exhaustive_translation demo_translation (10, 10, 10)
              (\<lambda>v. 0) (10, 10, 10) (\<lambda>v. 0) (3, 3, 3) (1, 1, 1) (1, 1, 1) (1, 1, 1) 0
              (Some (\<lambda>(x, y, z). x = 3)) = Inr field)"
proof -
  have s: "sample_points (10, 10, 10)
             (limit_of (search_radius_of (1, 1, 1) (1, 1, 1) (1, 1, 1)) (3, 3, 3))
             (3, 3, 3) (Some (\<lambda>(x, y, z). x = 3)) = Inr [(3, 3, 3), (3, 3, 6), (3, 6, 3), (3, 6, 6)]"
    by code_simp
  have e: "\<forall>fb mb. \<exists>t. exhaustive demo_translation fb mb = Inr t"
    by (simp add: demo_translation_def)
  show ?thesis
    using s e samples_keep_full_context [OF s, of "\<lambda>v. 0" "\<lambda>v. 0" demo_translation 0]
    by (simp add: limit_of_def search_radius_of_def inside3_def inside_def)
qed

lemma vscale_one: "vscale 1 t = t"
  by (cases t) (simp add: vscale_def)

lemma vadd_zero_left: "vadd (0, 0, 0) v = v"
  by (cases v) (simp add: vadd_def)

text \<open>
  C7. For sample centres whose stride windows lie inside the volume, the stitched field at
  a voxel is the sum, over the samples, of the translation times the ramp weight of the
  voxel in the sample's window (zero outside the window): contributions add up and are not
  renormalised. The ramp is 1 at the centre and 0 at the edge of the window. For a single
  sample the field is the translation at the sample centre and zero outside the window, in
  particular at twice the stride along an axis.
\<close>

theorem stitch_adds_ramp_weighted_translations:
  assumes ins: "\<forall>c\<in>set samples. inside3 shape c (s0, s1, s2)"
  shows "stitch shape (s0, s1, s2) translations samples =
           Inr (\<lambda>p. foldl vadd (0, 0, 0)
                      (map (\<lambda>tc. window_contribution (s0, s1, s2) tc p)
                         (zip translations samples))) \<and>
         (\<forall>t x y z. (x, y, z) \<in> set samples \<longrightarrow>
            (\<exists>f. stitch shape (s0, s1, s2) [t] [(x, y, z)] = Inr f \<and>
                 f (x, y, z) = t \<and>
                 (\<forall>a b c. int s0 < \<bar>a - x\<bar> \<or> int s1 < \<bar>b - y\<bar> \<or> int s2 < \<bar>c - z\<bar>
                              \<longrightarrow> f (a, b, c) = (0, 0, 0)) \<and>
                 (0 < s0 \<longrightarrow> f (x + 2 * int s0, y, z) = (0, 0, 0)) \<and>
                 (0 < s1 \<longrightarrow> f (x, y + 2 * int s1, z) = (0, 0, 0)) \<and>
                 (0 < s2 \<longrightarrow> f (x, y, z + 2 * int s2) = (0, 0, 0)))) \<and>
         (\<forall>s. ramp_at s 0 = 1 \<and> (0 < s \<longrightarrow> ramp_at s (int s) = 0 \<and> ramp_at s (- int s) = 0))"
proof -
  have all: "\<forall>tc\<in>set (zip translations samples). inside3 shape (snd tc) (s0, s1, s2)"
    using ins by (auto dest: set_zip_rightD)
  have one: "stitch shape (s0, s1, s2) translations samples =
           Inr (\<lambda>p. foldl vadd (0, 0, 0)
                      (map (\<lambda>tc. window_contribution (s0, s1, s2) tc p)
                         (zip translations samples)))"
    unfolding stitch_def by (rule stitch_from_inside [OF all])
  have two: "\<exists>f. stitch shape (s0, s1, s2) [t] [(x, y, z)] = Inr f \<and>
                 f (x, y, z) = t \<and>
                 (\<forall>a b c. int s0 < \<bar>a - x\<bar> \<or> int s1 < \<bar>b - y\<bar> \<or> int s2 < \<bar>c - z\<bar>
                              \<longrightarrow> f (a, b, c) = (0, 0, 0)) \<and>
                 (0 < s0 \<longrightarrow> f (x + 2 * int s0, y, z) = (0, 0, 0)) \<and>
                 (0 < s1 \<longrightarrow> f (x, y + 2 * int s1, z) = (0, 0, 0)) \<and>
                 (0 < s2 \<longrightarrow> f (x, y, z + 2 * int s2) = (0, 0, 0))"
    if "(x, y, z) \<in> set samples" for t x y z
  proof -
    have "\<forall>tc\<in>set [(t, (x, y, z))]. inside3 shape (snd tc) (s0, s1, s2)"
      using ins that by simp
    from stitch_from_inside [OF this, of "\<lambda>_. (0, 0, 0)"]
    have "stitch shape (s0, s1, s2) [t] [(x, y, z)] =
            Inr (\<lambda>p. window_contribution (s0, s1, s2) (t, (x, y, z)) p)"
      by (simp add: stitch_def vadd_zero_left)
    then show ?thesis
      by (auto simp: window_contribution_def ramp_at_def vscale_one)
  qed
  have three: "ramp_at s 0 = 1 \<and> (0 < s \<longrightarrow> ramp_at s (int s) = 0 \<and> ramp_at s (- int s) = 0)"
    for s
    by (simp add: ramp_at_def)
  show ?thesis using one two three by blast
qed

theorem stitch_adds_ramp_weighted_translations_witness:
  "inside3 (10, 10, 10) (3, 3, 3) (3, 3, 3) \<and> inside3 (10, 10, 10) (6, 3, 3) (3, 3, 3) \<and>
   (case stitch (10, 10, 10) (3, 3, 3) [(3, 0, 0), (0, 3, 0)] [(3, 3, 3), (6, 3, 3)] of
      Inl e \<Rightarrow> False
    | Inr f \<Rightarrow> f (3, 3, 3) = (3, 0, 0) \<and> f (6, 3, 3) = (0, 3, 0) \<and> f (4, 3, 3) = (2, 1, 0) \<and>
               f (9, 3, 3) = (0, 0, 0) \<and> f (0, 3, 3) = (0, 0, 0))"
proof -
  have ins: "\<forall>c\<in>set [(3, 3, 3), (6, 3, 3)]. inside3 (10, 10, 10) c (3, 3, 3)"
    by (simp add: inside3_def inside_def)
  show ?thesis
    using ins stitch_adds_ramp_weighted_translations [OF ins, of "[(3, 0, 0), (0, 3, 0)]"]
    by (simp add: window_contribution_def ramp_at_def vscale_def vadd_def)
qed

end
